theory Spec2Isabelle
  imports Complex_Main "HOL-Library.Sublist"
begin

section \<open>Python values, dictionaries and formatted strings\<close>

text \<open>
  The agent passes loosely typed dictionaries (\<^verbatim>\<open>Dict[str, Any]\<close>) between its
  components. A value of type \<^verbatim>\<open>Any\<close> is one of the JSON-like Python values below;
  a dictionary is an association list in insertion order whose first binding of a key is
  the one a lookup returns.
\<close>

datatype pyval =
    PNone
  | PBool bool
  | PInt int
  | PFloat real
  | PStr string
  | PList "pyval list"
  | PDict "(string \<times> pyval) list"

type_synonym pydict = "(string \<times> pyval) list"

text \<open>\<^verbatim>\<open>d.get(k, default)\<close>; \<^verbatim>\<open>d.get(k)\<close> is \<open>dict_get d k PNone\<close>.\<close>

definition dict_get :: "pydict \<Rightarrow> string \<Rightarrow> pyval \<Rightarrow> pyval" where
  "dict_get d k dflt = (case map_of d k of None \<Rightarrow> dflt | Some v \<Rightarrow> v)"

text \<open>Python truthiness, as tested by \<^verbatim>\<open>if v:\<close>.\<close>

fun truthy :: "pyval \<Rightarrow> bool" where
  "truthy PNone = False"
| "truthy (PBool b) = b"
| "truthy (PInt i) = (i \<noteq> 0)"
| "truthy (PFloat r) = (r \<noteq> 0)"
| "truthy (PStr s) = (s \<noteq> [])"
| "truthy (PList xs) = (xs \<noteq> [])"
| "truthy (PDict kvs) = (kvs \<noteq> [])"

text \<open>
  An f-string is kept as its literal pieces and the values interpolated into it, in order:
  \<^verbatim>\<open>f"CPU usage at {x}% exceeds threshold"\<close> is
  \<open>[Lit ''CPU usage at '', Val x, Lit ''% exceeds threshold'']\<close>. Rendering a float or
  an exception as text is not modelled; two f-strings are equal when their pieces are.
\<close>

datatype piece = Lit string | Val pyval

type_synonym fstring = "piece list"

text \<open>
  \<^verbatim>\<open>s.lower()\<close> on the ASCII letters, and the substring test \<^verbatim>\<open>needle in s\<close>.
\<close>

definition lower_char :: "char \<Rightarrow> char" where
  "lower_char c =
     (let n = (of_char c :: nat) in if 65 \<le> n \<and> n \<le> 90 then char_of (n + 32) else c)"

definition lower :: "string \<Rightarrow> string" where
  "lower s = map lower_char s"

fun starts_with :: "string \<Rightarrow> string \<Rightarrow> bool" where
  "starts_with [] s = True"
| "starts_with (c # cs) [] = False"
| "starts_with (c # cs) (x # xs) = (c = x \<and> starts_with cs xs)"

fun contains :: "string \<Rightarrow> string \<Rightarrow> bool" where
  "contains needle [] = (needle = [])"
| "contains needle (x # xs) = (starts_with needle (x # xs) \<or> contains needle xs)"

section \<open>Time and the outside world\<close>

text \<open>
  A \<^verbatim>\<open>datetime\<close> is a number of microseconds; a \<^verbatim>\<open>timedelta\<close> is a difference
  of two of them. Every \<^verbatim>\<open>datetime.now()\<close> is a fresh reading of the clock: the
  world holds the sequence of readings still to come and the number of readings taken.
  The world also holds what the executor touches: the outcome of each simulated command
  (\<^verbatim>\<open>random.random() > 0.1\<close> inside \<^verbatim>\<open>_run_command\<close>), the commands run so far
  and the seconds spent in \<^verbatim>\<open>asyncio.sleep\<close>.
\<close>

type_synonym time = int

definition second :: time where "second = 1000000"
definition hour :: time where "hour = 3600 * second"
definition day :: time where "day = 24 * hour"

text \<open>\<^verbatim>\<open>dt.hour\<close>, the hour of the day.\<close>

definition hour_of :: "time \<Rightarrow> int" where
  "hour_of t = (t div hour) mod 24"

record world =
  time_src :: "nat \<Rightarrow> time"
  reads :: nat
  cmd_success :: "nat \<Rightarrow> bool"
  cmd_log :: "string list"
  slept :: nat

definition now :: "world \<Rightarrow> time \<times> world" where
  "now w = (time_src w (reads w), w\<lparr>reads := Suc (reads w)\<rparr>)"

text \<open>
  Code that builds a list while it reads the clock is written with four small
  combinators: \<open>with_now\<close> reads the clock and continues with the reading,
  \<open>emit\<close> is \<^verbatim>\<open>xs.append(C(..., timestamp=datetime.now()))\<close>, \<open>skip\<close>
  appends nothing, and \<open>then_do\<close> runs two such steps one after the other.
\<close>

definition with_now :: "(time \<Rightarrow> world \<Rightarrow> 'a \<times> world) \<Rightarrow> world \<Rightarrow> 'a \<times> world" where
  "with_now f w = (let (t, w') = now w in f t w')"

definition emit :: "(time \<Rightarrow> 'a) \<Rightarrow> world \<Rightarrow> 'a list \<times> world" where
  "emit mk = with_now (\<lambda>t w. ([mk t], w))"

definition skip :: "world \<Rightarrow> 'a list \<times> world" where
  "skip w = ([], w)"

definition then_do ::
  "(world \<Rightarrow> 'a list \<times> world) \<Rightarrow> (world \<Rightarrow> 'a list \<times> world) \<Rightarrow> world \<Rightarrow> 'a list \<times> world" where
  "then_do m1 m2 w = (let (xs, w1) = m1 w; (ys, w2) = m2 w1 in (xs @ ys, w2))"

section \<open>Data model (decision\_engine.py, devops\_agent.py)\<close>

datatype action_type =
    SCALE_UP | SCALE_DOWN | RESTART_SERVICE | DEPLOY_UPDATE | ROLLBACK
  | UPDATE_CONFIG | CREATE_ALERT | HEAL_SERVICE | OPTIMIZE_PERFORMANCE | UPDATE_SECURITY

fun action_type_value :: "action_type \<Rightarrow> string" where
  "action_type_value SCALE_UP = ''scale_up''"
| "action_type_value SCALE_DOWN = ''scale_down''"
| "action_type_value RESTART_SERVICE = ''restart_service''"
| "action_type_value DEPLOY_UPDATE = ''deploy_update''"
| "action_type_value ROLLBACK = ''rollback''"
| "action_type_value UPDATE_CONFIG = ''update_config''"
| "action_type_value CREATE_ALERT = ''create_alert''"
| "action_type_value HEAL_SERVICE = ''heal_service''"
| "action_type_value OPTIMIZE_PERFORMANCE = ''optimize_performance''"
| "action_type_value UPDATE_SECURITY = ''update_security''"

datatype priority = LOW | MEDIUM | HIGH | CRITICAL

fun priority_value :: "priority \<Rightarrow> int" where
  "priority_value LOW = 1"
| "priority_value MEDIUM = 2"
| "priority_value HIGH = 3"
| "priority_value CRITICAL = 4"

fun priority_name :: "priority \<Rightarrow> string" where
  "priority_name LOW = ''LOW''"
| "priority_name MEDIUM = ''MEDIUM''"
| "priority_name HIGH = ''HIGH''"
| "priority_name CRITICAL = ''CRITICAL''"

record decision =
  action_type :: action_type
  priority :: priority
  target :: string
  parameters :: pydict
  reasoning :: fstring
  timestamp :: time
  expected_outcome :: string
  rollback_plan :: "pydict option"

text \<open>
  An alert is the dictionary the monitoring system builds: always the five keys below,
  each bound to a string (the timestamp is kept as the time whose ISO text it is, which
  \<^verbatim>\<open>datetime.fromisoformat\<close> reads back unchanged).
\<close>

record alert =
  alert_id :: string
  alert_type :: string
  severity :: string
  message :: string
  alert_timestamp :: time

text \<open>
  \<^verbatim>\<open>service_health\<close> is a dictionary iterated in insertion order: an association
  list, whose keys are distinct in a well-formed state.
\<close>

record system_state =
  cpu_usage :: real
  memory_usage :: real
  disk_usage :: real
  network_usage :: real
  response_time :: real
  error_rate :: real
  request_count :: int
  service_health :: "(string \<times> bool) list"
  alerts :: "alert list"
  deployment_status :: string
  last_deployment :: "time option"

record project_context =
  repo_url :: string
  project_type :: string
  languages :: "string list"
  frameworks :: "string list"
  dependencies :: pydict
  deployment_requirements :: pydict
  security_requirements :: "string list"
  performance_requirements :: pydict
  database_usage :: "string list"
  environment_variables :: "string list"
  build_tools :: "string list"

section \<open>Decision engine (decision\_engine.py)\<close>

record thresholds =
  cpu_scale_up :: real
  cpu_scale_down :: real
  memory_scale_up :: real
  memory_scale_down :: real
  disk_usage_threshold :: real
  response_time_threshold :: real
  error_rate_threshold :: real
  network_usage_threshold :: real

definition load_thresholds :: thresholds where
  "load_thresholds = \<lparr>cpu_scale_up = 80, cpu_scale_down = 30, memory_scale_up = 85,
     memory_scale_down = 40, disk_usage_threshold = 90, response_time_threshold = 2,
     error_rate_threshold = 5, network_usage_threshold = 80\<rparr>"

text \<open>
  The engine object: its configuration dictionary, its decision history and its
  thresholds (\<^verbatim>\<open>self.rules\<close> is loaded and never read).
\<close>

record engine =
  config :: pydict
  decision_history :: "decision list"
  engine_thresholds :: thresholds

definition init_engine :: "pydict \<Rightarrow> engine" where
  "init_engine cfg = \<lparr>config = cfg, decision_history = [], engine_thresholds = load_thresholds\<rparr>"

subsection \<open>The four analyzers\<close>

definition analyze_performance_decisions ::
  "engine \<Rightarrow> system_state \<Rightarrow> project_context \<Rightarrow> world \<Rightarrow> decision list \<times> world" where
  "analyze_performance_decisions e state ctx =
    then_do
      (if cpu_usage state > cpu_scale_up (engine_thresholds e) then
         emit (\<lambda>t. \<lparr>action_type = SCALE_UP, priority = HIGH, target = ''compute'',
           parameters = [(''metric'', PStr ''cpu''), (''increase'', PStr ''25%'')],
           reasoning = [Lit ''CPU usage at '', Val (PFloat (cpu_usage state)),
                        Lit ''% exceeds threshold''],
           timestamp = t,
           expected_outcome = ''Reduced CPU load and improved response times'',
           rollback_plan = None\<rparr>)
       else if cpu_usage state < cpu_scale_down (engine_thresholds e) then
         emit (\<lambda>t. \<lparr>action_type = SCALE_DOWN, priority = LOW, target = ''compute'',
           parameters = [(''metric'', PStr ''cpu''), (''decrease'', PStr ''20%'')],
           reasoning = [Lit ''CPU usage at '', Val (PFloat (cpu_usage state)),
                        Lit ''% is below threshold''],
           timestamp = t,
           expected_outcome = ''Cost optimization while maintaining performance'',
           rollback_plan = None\<rparr>)
       else skip)
   (then_do
      (if memory_usage state > memory_scale_up (engine_thresholds e) then
         emit (\<lambda>t. \<lparr>action_type = SCALE_UP, priority = HIGH, target = ''memory'',
           parameters = [(''metric'', PStr ''memory''), (''increase'', PStr ''30%'')],
           reasoning = [Lit ''Memory usage at '', Val (PFloat (memory_usage state)),
                        Lit ''% exceeds threshold''],
           timestamp = t,
           expected_outcome = ''Prevented out-of-memory errors'',
           rollback_plan = None\<rparr>)
       else skip)
      (if response_time state > response_time_threshold (engine_thresholds e) then
         (if truthy (dict_get (performance_requirements ctx) ''caching'' PNone) then
            emit (\<lambda>t. \<lparr>action_type = OPTIMIZE_PERFORMANCE, priority = MEDIUM, target = ''cache'',
              parameters = [(''action'', PStr ''increase_cache_size''), (''amount'', PStr ''50%'')],
              reasoning = [Lit ''Response time '', Val (PFloat (response_time state)),
                           Lit ''s exceeds threshold''],
              timestamp = t,
              expected_outcome = ''Improved response times through better caching'',
              rollback_plan = None\<rparr>)
          else
            emit (\<lambda>t. \<lparr>action_type = SCALE_UP, priority = MEDIUM, target = ''compute'',
              parameters = [(''metric'', PStr ''instances''), (''increase'', PStr ''1'')],
              reasoning = [Lit ''Response time '', Val (PFloat (response_time state)),
                           Lit ''s exceeds threshold''],
              timestamp = t,
              expected_outcome = ''Improved response times through horizontal scaling'',
              rollback_plan = None\<rparr>))
       else skip))"

text \<open>The loop over \<^verbatim>\<open>state.service_health.items()\<close>.\<close>

definition heal_decision :: "string \<Rightarrow> time \<Rightarrow> decision" where
  "heal_decision service t =
     \<lparr>action_type = HEAL_SERVICE, priority = CRITICAL, target = service,
      parameters = [(''action'', PStr ''restart''), (''max_attempts'', PInt 3)],
      reasoning = [Lit ''Service '', Val (PStr service), Lit '' is unhealthy''],
      timestamp = t,
      expected_outcome = ''Service restoration'',
      rollback_plan = Some [(''action'', PStr ''manual_intervention_required'')]\<rparr>"

fun heal_decisions :: "(string \<times> bool) list \<Rightarrow> world \<Rightarrow> decision list \<times> world" where
  "heal_decisions [] = skip"
| "heal_decisions ((service, is_healthy) # rest) =
     (if \<not> is_healthy then then_do (emit (heal_decision service)) (heal_decisions rest)
      else heal_decisions rest)"

text \<open>
  The error-rate rule reads the clock to compare it with the last deployment only when
  there is one (\<^verbatim>\<open>state.last_deployment and ...\<close> short-circuits on \<^verbatim>\<open>None\<close>).
\<close>

definition rollback_decision :: "system_state \<Rightarrow> time \<Rightarrow> decision" where
  "rollback_decision state t =
     \<lparr>action_type = ROLLBACK, priority = CRITICAL, target = ''deployment'',
      parameters = [(''target'', PStr ''previous_stable'')],
      reasoning = [Lit ''Error rate '', Val (PFloat (error_rate state)),
                   Lit ''% after recent deployment''],
      timestamp = t,
      expected_outcome = ''Restored system stability'',
      rollback_plan = None\<rparr>"

definition restart_decision :: "system_state \<Rightarrow> time \<Rightarrow> decision" where
  "restart_decision state t =
     \<lparr>action_type = RESTART_SERVICE, priority = HIGH, target = ''application'',
      parameters = [(''graceful'', PBool True), (''timeout'', PStr ''30s'')],
      reasoning = [Lit ''High error rate '', Val (PFloat (error_rate state)), Lit ''% detected''],
      timestamp = t,
      expected_outcome = ''Cleared potential memory leaks or deadlocks'',
      rollback_plan = None\<rparr>"

definition analyze_health_decisions ::
  "engine \<Rightarrow> system_state \<Rightarrow> project_context \<Rightarrow> world \<Rightarrow> decision list \<times> world" where
  "analyze_health_decisions e state ctx =
    then_do (heal_decisions (service_health state))
   (then_do
      (if error_rate state > error_rate_threshold (engine_thresholds e) then
         (case last_deployment state of
            None \<Rightarrow> emit (restart_decision state)
          | Some ld \<Rightarrow>
              with_now (\<lambda>t. if t - ld < hour then emit (rollback_decision state)
                            else emit (restart_decision state)))
       else skip)
      (if disk_usage state > disk_usage_threshold (engine_thresholds e) then
         emit (\<lambda>t. \<lparr>action_type = OPTIMIZE_PERFORMANCE, priority = MEDIUM, target = ''storage'',
           parameters = [(''action'', PStr ''cleanup_logs''), (''retention'', PStr ''7d'')],
           reasoning = [Lit ''Disk usage at '', Val (PFloat (disk_usage state)),
                        Lit ''% is critical''],
           timestamp = t,
           expected_outcome = ''Free disk space and prevent service interruption'',
           rollback_plan = None\<rparr>)
       else skip))"

text \<open>The loop over the security alerts, and the loop over all alerts for SSL expiry.\<close>

fun security_alert_decisions :: "alert list \<Rightarrow> world \<Rightarrow> decision list \<times> world" where
  "security_alert_decisions [] = skip"
| "security_alert_decisions (a # rest) =
     (if severity a = ''high'' then
        then_do
          (emit (\<lambda>t. \<lparr>action_type = UPDATE_SECURITY, priority = CRITICAL, target = ''firewall'',
             parameters = [(''action'', PStr ''block_suspicious_ips''),
                           (''alert_id'', PStr (alert_id a))],
             reasoning = [Lit ''High severity security alert: '', Val (PStr (message a))],
             timestamp = t,
             expected_outcome = ''Mitigated security threat'',
             rollback_plan = None\<rparr>))
          (security_alert_decisions rest)
      else security_alert_decisions rest)"

fun ssl_expiry_decisions :: "alert list \<Rightarrow> world \<Rightarrow> decision list \<times> world" where
  "ssl_expiry_decisions [] = skip"
| "ssl_expiry_decisions (a # rest) =
     (if contains ''ssl'' (lower (message a)) \<and> contains ''expir'' (lower (message a)) then
        then_do
          (emit (\<lambda>t. \<lparr>action_type = UPDATE_SECURITY, priority = HIGH, target = ''certificates'',
             parameters = [(''action'', PStr ''renew_certificates'')],
             reasoning = [Lit ''SSL certificate expiring soon''],
             timestamp = t,
             expected_outcome = ''Maintained secure connections'',
             rollback_plan = None\<rparr>))
          (ssl_expiry_decisions rest)
      else ssl_expiry_decisions rest)"

definition analyze_security_decisions ::
  "engine \<Rightarrow> system_state \<Rightarrow> project_context \<Rightarrow> world \<Rightarrow> decision list \<times> world" where
  "analyze_security_decisions e state ctx =
    then_do
      (security_alert_decisions (filter (\<lambda>a. alert_type a = ''security'') (alerts state)))
      (ssl_expiry_decisions (alerts state))"

definition analyze_cost_decisions ::
  "engine \<Rightarrow> system_state \<Rightarrow> project_context \<Rightarrow> world \<Rightarrow> decision list \<times> world" where
  "analyze_cost_decisions e state ctx =
    with_now (\<lambda>now0.
      let current_hour = hour_of now0 in
      then_do
        (if (current_hour < 8 \<or> current_hour > 18) \<and> project_type ctx \<noteq> ''production'' then
           (if cpu_usage state < 20 \<and> memory_usage state < 30 then
              emit (\<lambda>t. \<lparr>action_type = SCALE_DOWN, priority = LOW, target = ''compute'',
                parameters = [(''schedule'', PStr ''off_hours''), (''reduction'', PStr ''50%'')],
                reasoning = [Lit ''Low usage during off-hours detected''],
                timestamp = t,
                expected_outcome = ''Reduced infrastructure costs'',
                rollback_plan = None\<rparr>)
            else skip)
         else skip)
        (if cpu_usage state < 5 \<and> memory_usage state < 10 then
           emit (\<lambda>t. \<lparr>action_type = OPTIMIZE_PERFORMANCE, priority = LOW, target = ''resources'',
             parameters = [(''action'', PStr ''identify_unused''), (''threshold'', PStr ''1h'')],
             reasoning = [Lit ''Very low resource utilization detected''],
             timestamp = t,
             expected_outcome = ''Cost savings through resource optimization'',
             rollback_plan = None\<rparr>)
         else skip))"

subsection \<open>make\_decisions\<close>

text \<open>
  \<^verbatim>\<open>decisions.sort(key=lambda d: d.priority.value, reverse=True)\<close>: Python's sort is
  stable, and with \<^verbatim>\<open>reverse=True\<close> elements with equal keys keep their original
  order. That is the stable insertion sort on the negated key.
\<close>

definition sort_by_priority :: "decision list \<Rightarrow> decision list" where
  "sort_by_priority ds = sort_key (\<lambda>d. - priority_value (priority d)) ds"

text \<open>The four analyzers in turn, each continuing in the world the previous one left.\<close>

definition generated_decisions ::
  "engine \<Rightarrow> system_state \<Rightarrow> project_context \<Rightarrow> world \<Rightarrow> decision list \<times> world" where
  "generated_decisions e state ctx =
    then_do (analyze_performance_decisions e state ctx)
   (then_do (analyze_health_decisions e state ctx)
   (then_do (analyze_security_decisions e state ctx)
            (analyze_cost_decisions e state ctx)))"

definition make_decisions ::
  "engine \<Rightarrow> system_state \<Rightarrow> project_context \<Rightarrow> world \<Rightarrow> decision list \<times> engine \<times> world" where
  "make_decisions e state ctx w =
    (let (generated, w4) = generated_decisions e state ctx w;
         decisions = sort_by_priority generated;
         history = decision_history e @ decisions;
         (t, w5) = now w4;
         cutoff_time = t - 24 * hour;
         history' = filter (\<lambda>d. timestamp d > cutoff_time) history
     in (take 5 decisions, e\<lparr>decision_history := history'\<rparr>, w5))"

text \<open>
  \<^verbatim>\<open>get_recent_decisions\<close>: the comprehension reads the clock once for every decision
  it tests.
\<close>

record decision_report =
  report_action :: string
  report_priority :: string
  report_target :: string
  report_reasoning :: fstring
  report_timestamp :: time

fun recent_decisions :: "decision list \<Rightarrow> world \<Rightarrow> decision list \<times> world" where
  "recent_decisions [] = skip"
| "recent_decisions (d # ds) =
     then_do (with_now (\<lambda>t w. (if timestamp d > t - hour then [d] else [], w)))
             (recent_decisions ds)"

definition report_of :: "decision \<Rightarrow> decision_report" where
  "report_of d = \<lparr>report_action = action_type_value (action_type d),
     report_priority = priority_name (priority d), report_target = target d,
     report_reasoning = reasoning d, report_timestamp = timestamp d\<rparr>"

definition get_recent_decisions :: "engine \<Rightarrow> world \<Rightarrow> decision_report list \<times> world" where
  "get_recent_decisions e w =
    (let (recent, w1) = recent_decisions (decision_history e) w in (map report_of recent, w1))"

section \<open>Learning module (learning\_module.py)\<close>

text \<open>
  An outcome record. \<^verbatim>\<open>outcome_metrics\<close> is a dictionary from metric names to floats.
\<close>

record action_outcome =
  outcome_decision :: decision
  execution_success :: bool
  system_state_before :: system_state
  system_state_after :: "system_state option"
  outcome_metrics :: "(string \<times> real) list"
  outcome_timestamp :: time

definition metric_get :: "(string \<times> real) list \<Rightarrow> string \<Rightarrow> real \<Rightarrow> real" where
  "metric_get d k dflt = (case map_of d k of None \<Rightarrow> dflt | Some v \<Rightarrow> v)"

text \<open>
  \<^verbatim>\<open>_calculate_outcome_metrics\<close>. The effectiveness is a sum of some of 0.3, 0.3, 0.2 and
  0.2; every such sum lies on the same side of 0.5 in floating point as it does here
  (\<^verbatim>\<open>0.3 + 0.2 == 0.5\<close> holds for Python floats).
\<close>

definition healthy_count :: "(string \<times> bool) list \<Rightarrow> int" where
  "healthy_count sh = int (length (filter snd sh))"

definition calculate_outcome_metrics :: "system_state \<Rightarrow> system_state \<Rightarrow> (string \<times> real) list" where
  "calculate_outcome_metrics before after =
    (let cpu_improvement = cpu_usage before - cpu_usage after;
         memory_improvement = memory_usage before - memory_usage after;
         response_time_improvement = response_time before - response_time after;
         error_rate_improvement = error_rate before - error_rate after;
         health_improvement =
           healthy_count (service_health after) - healthy_count (service_health before);
         effectiveness =
           (if cpu_improvement > 0 then 0.3 else 0)
           + (if response_time_improvement > 0 then 0.3 else 0)
           + (if error_rate_improvement > 0 then 0.2 else 0)
           + (if health_improvement > 0 then 0.2 else 0)
     in [(''cpu_improvement'', cpu_improvement),
         (''memory_improvement'', memory_improvement),
         (''response_time_improvement'', response_time_improvement),
         (''error_rate_improvement'', error_rate_improvement),
         (''health_improvement'', of_int health_improvement),
         (''overall_effectiveness'', effectiveness)])"

text \<open>
  \<^verbatim>\<open>self.learned_thresholds\<close>: a dictionary from a threshold key to its list of samples.
  \<open>samples lt k\<close> is the content of the buffer of key \<open>k\<close>, empty when the key is absent.
\<close>

type_synonym learned_thresholds = "string \<Rightarrow> real list option"

definition samples :: "learned_thresholds \<Rightarrow> string \<Rightarrow> real list" where
  "samples lt k = (case lt k of None \<Rightarrow> [] | Some xs \<Rightarrow> xs)"

text \<open>\<^verbatim>\<open>xs[-n:]\<close> for a positive \<open>n\<close>: the last \<open>n\<close> elements, all of them when there are fewer.\<close>

definition last_n :: "nat \<Rightarrow> 'a list \<Rightarrow> 'a list" where
  "last_n n xs = drop (length xs - n) xs"

definition overall_effectiveness :: "action_outcome \<Rightarrow> real" where
  "overall_effectiveness outcome = metric_get (outcome_metrics outcome) ''overall_effectiveness'' 0"

definition learn_optimal_thresholds :: "learned_thresholds \<Rightarrow> action_outcome \<Rightarrow> learned_thresholds" where
  "learn_optimal_thresholds lt outcome =
    (let action = action_type_value (action_type (outcome_decision outcome));
         before_state = system_state_before outcome;
         effectiveness = overall_effectiveness outcome
     in if action = ''scale_up'' \<or> action = ''scale_down'' then
          (let threshold_key = action @ ''_cpu_threshold'';
               lt1 = (case lt threshold_key of None \<Rightarrow> lt(threshold_key \<mapsto> []) | Some xs \<Rightarrow> lt)
           in if effectiveness > 0.5 then
                (let appended = samples lt1 threshold_key @ [cpu_usage before_state]
                 in if length appended > 50 then lt1(threshold_key \<mapsto> last_n 50 appended)
                    else lt1(threshold_key \<mapsto> appended))
              else lt1)
        else lt)"

text \<open>The thresholds learned from a sequence of outcomes, one after the other.\<close>

definition learn_all :: "learned_thresholds \<Rightarrow> action_outcome list \<Rightarrow> learned_thresholds" where
  "learn_all lt outcomes = foldl learn_optimal_thresholds lt outcomes"

section \<open>Monitoring system (monitoring\_system.py)\<close>

record metric_data =
  metric_timestamp :: time
  metric_value :: real
  metric_name :: string
  metric_tags :: "(string \<times> string) list"

record monitoring_system =
  monitoring_config :: pydict
  is_monitoring :: bool
  metrics_history :: "metric_data list"
  current_alerts :: "alert list"
  monitoring_interval :: pyval

definition init_monitoring :: "pydict \<Rightarrow> monitoring_system" where
  "init_monitoring cfg = \<lparr>monitoring_config = cfg, is_monitoring = False, metrics_history = [],
     current_alerts = [], monitoring_interval = dict_get cfg ''monitoring_interval'' (PInt 60)\<rparr>"

text \<open>
  The metric generators draw random numbers; what they return in one call of
  \<^verbatim>\<open>get_system_state\<close> is given as a sample.
\<close>

record sample =
  sample_cpu :: real
  sample_memory :: real
  sample_disk :: real
  sample_network :: real
  sample_response_time :: real
  sample_error_rate :: real
  sample_request_count :: int
  sample_service_health :: "(string \<times> bool) list"

definition get_system_state ::
  "monitoring_system \<Rightarrow> sample \<Rightarrow> world \<Rightarrow> system_state \<times> world" where
  "get_system_state m smp =
     with_now (\<lambda>current_time w.
       (\<lparr>cpu_usage = sample_cpu smp, memory_usage = sample_memory smp,
         disk_usage = sample_disk smp, network_usage = sample_network smp,
         response_time = sample_response_time smp, error_rate = sample_error_rate smp,
         request_count = sample_request_count smp,
         service_health = sample_service_health smp,
         alerts = current_alerts m, deployment_status = ''stable'',
         last_deployment = Some (current_time - 2 * hour)\<rparr>, w))"

text \<open>
  One alert dictionary: the clock is read for the id and again for the timestamp. The text
  of a float (\<^verbatim>\<open>str\<close> inside an f-string) is a parameter \<open>fmt\<close> of the model.
\<close>

definition new_alert ::
  "(real \<Rightarrow> string) \<Rightarrow> string \<Rightarrow> string \<Rightarrow> string \<Rightarrow> string \<Rightarrow> world \<Rightarrow> alert list \<times> world" where
  "new_alert fmt id_prefix typ sev msg =
     with_now (\<lambda>t1. emit (\<lambda>t2.
       \<lparr>alert_id = id_prefix @ fmt (real_of_int t1 / 1000000), alert_type = typ, severity = sev,
        message = msg, alert_timestamp = t2\<rparr>))"

text \<open>The two draws of \<^verbatim>\<open>random.random()\<close> for the simulated security alerts.\<close>

record rolls =
  security_roll :: real
  ssl_roll :: real

definition raise_alerts ::
  "(real \<Rightarrow> string) \<Rightarrow> system_state \<Rightarrow> rolls \<Rightarrow> world \<Rightarrow> alert list \<times> world" where
  "raise_alerts fmt current_state r =
    then_do
      (if cpu_usage current_state > 90 then
         new_alert fmt ''cpu-alert-'' ''performance'' ''high''
           (''High CPU usage: '' @ fmt (cpu_usage current_state) @ ''%'')
       else skip)
   (then_do
      (if memory_usage current_state > 90 then
         new_alert fmt ''memory-alert-'' ''performance'' ''high''
           (''High memory usage: '' @ fmt (memory_usage current_state) @ ''%'')
       else skip)
   (then_do
      (if disk_usage current_state > 85 then
         new_alert fmt ''disk-alert-'' ''storage'' ''medium''
           (''High disk usage: '' @ fmt (disk_usage current_state) @ ''%'')
       else skip)
   (then_do
      (if response_time current_state > 3 then
         new_alert fmt ''response-alert-'' ''performance'' ''medium''
           (''Slow response time: '' @ fmt (response_time current_state) @ ''s'')
       else skip)
   (then_do
      (if error_rate current_state > 5 then
         new_alert fmt ''error-alert-'' ''error'' ''high''
           (''High error rate: '' @ fmt (error_rate current_state) @ ''%'')
       else skip)
   (then_do
      (if security_roll r < 0.01 then
         new_alert fmt ''security-alert-'' ''security'' ''high''
           ''Suspicious login attempts detected''
       else skip)
      (if ssl_roll r < 0.005 then
         new_alert fmt ''ssl-alert-'' ''security'' ''medium''
           ''SSL certificate expiring in 7 days''
       else skip))))))"

text \<open>
  One pass of the loop in \<^verbatim>\<open>_check_alerts\<close>: sample the state, raise the new alerts,
  prune, sleep 30 seconds. \<open>pass_cutoff\<close> is the \<^verbatim>\<open>cutoff_time\<close> of that pass: the
  clock reading taken after the new alerts were added, less one hour.
\<close>

definition pass_cutoff ::
  "(real \<Rightarrow> string) \<Rightarrow> sample \<Rightarrow> rolls \<Rightarrow> monitoring_system \<Rightarrow> world \<Rightarrow> time" where
  "pass_cutoff fmt smp r m w =
    (let (current_state, w0) = get_system_state m smp w;
         (new_alerts, w1) = raise_alerts fmt current_state r w0
     in fst (now w1) - hour)"

definition check_alerts_pass ::
  "(real \<Rightarrow> string) \<Rightarrow> sample \<Rightarrow> rolls \<Rightarrow> monitoring_system \<Rightarrow> world
     \<Rightarrow> monitoring_system \<times> world" where
  "check_alerts_pass fmt smp r m w =
    (let (current_state, w0) = get_system_state m smp w;
         (new_alerts, w1) = raise_alerts fmt current_state r w0;
         extended = current_alerts m @ new_alerts;
         (t, w2) = now w1;
         cutoff_time = t - hour;
         kept = filter (\<lambda>a. alert_timestamp a > cutoff_time) extended
     in (m\<lparr>current_alerts := kept\<rparr>, w2\<lparr>slept := slept w2 + 30\<rparr>))"

record monitoring_status =
  status_is_monitoring :: bool
  metrics_collected :: nat
  active_alerts :: nat
  status_monitoring_interval :: pyval
  last_collection :: time

definition monitoring_get_status :: "monitoring_system \<Rightarrow> world \<Rightarrow> monitoring_status \<times> world" where
  "monitoring_get_status m =
     with_now (\<lambda>t w.
       (\<lparr>status_is_monitoring = is_monitoring m, metrics_collected = length (metrics_history m),
         active_alerts = length (current_alerts m),
         status_monitoring_interval = monitoring_interval m, last_collection = t\<rparr>, w))"

section \<open>Status of the whole agent (infrastructure\_manager.py, devops\_agent.py)\<close>

record infrastructure_resource =
  resource_id :: string
  resource_type :: string
  resource_status :: string
  resource_config :: pydict
  created_at :: time
  resource_tags :: "(string \<times> string) list"

record infrastructure_manager =
  cloud_provider :: pyval
  resources :: "infrastructure_resource list"

record resource_entry =
  entry_id :: string
  entry_status :: string
  entry_created_at :: time

text \<open>The body of the loop that groups the resources by type, in a dictionary.\<close>

definition add_resource_entry ::
  "(string \<times> resource_entry list) list \<Rightarrow> infrastructure_resource
     \<Rightarrow> (string \<times> resource_entry list) list" where
  "add_resource_entry by_type r =
    (let entry = \<lparr>entry_id = resource_id r, entry_status = resource_status r,
                   entry_created_at = created_at r\<rparr>;
         by_type1 = (if resource_type r \<notin> set (map fst by_type)
                     then by_type @ [(resource_type r, [])] else by_type)
     in map (\<lambda>(k, es). if k = resource_type r then (k, es @ [entry]) else (k, es)) by_type1)"

record infrastructure_status =
  status_cloud_provider :: pyval
  total_resources :: nat
  resources_by_type :: "(string \<times> resource_entry list) list"
  last_updated :: time

definition infrastructure_get_status ::
  "infrastructure_manager \<Rightarrow> world \<Rightarrow> infrastructure_status \<times> world" where
  "infrastructure_get_status im =
     with_now (\<lambda>t w.
       (\<lparr>status_cloud_provider = cloud_provider im, total_resources = length (resources im),
         resources_by_type = foldl add_resource_entry [] (resources im),
         last_updated = t\<rparr>, w))"

text \<open>The parts of the agent that its status reads.\<close>

record devops_agent =
  is_running :: bool
  agent_project_context :: "project_context option"
  decision_engine :: engine
  monitoring_system :: monitoring_system
  infra_manager :: infrastructure_manager

record agent_status =
  status_is_running :: bool
  status_project_context :: "project_context option"
  monitoring_status :: monitoring_status
  infrastructure_status :: infrastructure_status
  last_decisions :: "decision_report list"

definition agent_get_status :: "devops_agent \<Rightarrow> world \<Rightarrow> agent_status \<times> world" where
  "agent_get_status a w =
    (let (ms, w1) = monitoring_get_status (monitoring_system a) w;
         (is, w2) = infrastructure_get_status (infra_manager a) w1;
         (ld, w3) = get_recent_decisions (decision_engine a) w2
     in (\<lparr>status_is_running = is_running a, status_project_context = agent_project_context a,
          monitoring_status = ms, infrastructure_status = is, last_decisions = ld\<rparr>, w3))"

text \<open>
  No decision of \<open>ds\<close> crosses the one-hour age between a run of
  \<^verbatim>\<open>get_recent_decisions\<close> that starts in the world \<open>w\<close> and one that starts in
  \<open>w'\<close>: the test \<^verbatim>\<open>d.timestamp > cutoff\<close> of the \<open>i\<close>-th decision, made at the
  \<open>i\<close>-th clock reading of each run, has the same outcome in both.
\<close>

definition same_verdicts :: "decision list \<Rightarrow> world \<Rightarrow> world \<Rightarrow> bool" where
  "same_verdicts ds w w' =
     (\<forall>i<length ds.
        (time_src w (reads w + i) - hour < timestamp (ds ! i))
        = (time_src w' (reads w' + i) - hour < timestamp (ds ! i)))"

text \<open>The outcome appends its CPU value to the buffer of key \<open>k\<close>.\<close>

definition feeds :: "string \<Rightarrow> action_outcome \<Rightarrow> bool" where
  "feeds k outcome =
    (let action = action_type_value (action_type (outcome_decision outcome))
     in (action = ''scale_up'' \<or> action = ''scale_down'') \<and> k = action @ ''_cpu_threshold''
        \<and> overall_effectiveness outcome > 0.5)"

section \<open>Action executor (action\_executor.py)\<close>

text \<open>
  The exceptions the handlers can raise on the parameters of a decision, with the text
  \<^verbatim>\<open>str(e)\<close> gives.
\<close>

datatype py_exn = TypeError string | KeyError string

fun exn_text :: "py_exn \<Rightarrow> string" where
  "exn_text (TypeError msg) = msg"
| "exn_text (KeyError k) = [CHR 0x27] @ k @ [CHR 0x27]"

text \<open>
  The text an f-string interpolates for a value: the string itself for a \<^verbatim>\<open>str\<close>;
  for every other value it is \<^verbatim>\<open>str(v)\<close>, a parameter \<open>fmt\<close> of the model.
\<close>

definition text_of :: "(pyval \<Rightarrow> string) \<Rightarrow> pyval \<Rightarrow> string" where
  "text_of fmt v = (case v of PStr s \<Rightarrow> s | _ \<Rightarrow> fmt v)"

text \<open>\<^verbatim>\<open>range(v)\<close>: the number of iterations, or the \<^verbatim>\<open>TypeError\<close> of a non-integer.\<close>

fun py_range :: "pyval \<Rightarrow> py_exn + nat" where
  "py_range (PInt n) = Inr (nat n)"
| "py_range (PBool b) = Inr (if b then 1 else 0)"
| "py_range v = Inl (TypeError ''object cannot be interpreted as an integer'')"

text \<open>\<^verbatim>\<open>v[:-1]\<close>: defined on strings and lists.\<close>

fun all_but_last :: "pyval \<Rightarrow> py_exn + pyval" where
  "all_but_last (PStr s) = Inr (PStr (butlast s))"
| "all_but_last (PList xs) = Inr (PList (butlast xs))"
| "all_but_last v = Inl (TypeError ''object is not subscriptable'')"

fun action_type_name :: "action_type \<Rightarrow> string" where
  "action_type_name SCALE_UP = ''SCALE_UP''"
| "action_type_name SCALE_DOWN = ''SCALE_DOWN''"
| "action_type_name RESTART_SERVICE = ''RESTART_SERVICE''"
| "action_type_name DEPLOY_UPDATE = ''DEPLOY_UPDATE''"
| "action_type_name ROLLBACK = ''ROLLBACK''"
| "action_type_name UPDATE_CONFIG = ''UPDATE_CONFIG''"
| "action_type_name CREATE_ALERT = ''CREATE_ALERT''"
| "action_type_name HEAL_SERVICE = ''HEAL_SERVICE''"
| "action_type_name OPTIMIZE_PERFORMANCE = ''OPTIMIZE_PERFORMANCE''"
| "action_type_name UPDATE_SECURITY = ''UPDATE_SECURITY''"

record execution_result =
  success :: bool
  result_message :: string
  details :: pydict
  execution_time :: real
  result_timestamp :: time

record executor =
  executor_config :: pydict
  execution_history :: "execution_result list"
  executor_cloud_provider :: pyval

definition init_executor :: "pydict \<Rightarrow> executor" where
  "init_executor cfg = \<lparr>executor_config = cfg, execution_history = [],
     executor_cloud_provider = dict_get cfg ''default_cloud'' (PStr ''aws'')\<rparr>"

text \<open>\<^verbatim>\<open>await asyncio.sleep(n)\<close>.\<close>

definition sleep :: "nat \<Rightarrow> world \<Rightarrow> world" where
  "sleep n w = w\<lparr>slept := slept w + n\<rparr>"

text \<open>
  \<^verbatim>\<open>_run_command\<close>: one second of simulated work, then the draw that decides success;
  the command is recorded. Nothing in its \<^verbatim>\<open>try\<close> block raises.
\<close>

definition run_command :: "string \<Rightarrow> world \<Rightarrow> (bool \<times> string) \<times> world" where
  "run_command cmd w =
    (let w1 = sleep 1 w;
         ok = cmd_success w1 (length (cmd_log w1));
         w2 = w1\<lparr>cmd_log := cmd_log w1 @ [cmd]\<rparr>
     in ((ok, (if ok then ''Command executed successfully: '' else ''Command failed: '') @ cmd),
         w2))"

text \<open>\<^verbatim>\<open>ExecutionResult(..., execution_time=0, timestamp=datetime.now())\<close>.\<close>

definition make_result :: "bool \<Rightarrow> string \<Rightarrow> pydict \<Rightarrow> world \<Rightarrow> execution_result \<times> world" where
  "make_result ok msg det =
     with_now (\<lambda>t w. (\<lparr>success = ok, result_message = msg, details = det, execution_time = 0,
                        result_timestamp = t\<rparr>, w))"

definition outcome_word :: "bool \<Rightarrow> string" where
  "outcome_word ok = (if ok then ''completed'' else ''failed'')"

subsection \<open>Scaling, by cloud provider\<close>

definition aws_scale_up ::
  "(pyval \<Rightarrow> string) \<Rightarrow> string \<Rightarrow> pydict \<Rightarrow> world \<Rightarrow> execution_result \<times> world" where
  "aws_scale_up fmt tgt params w =
    (let metric = dict_get params ''metric'' (PStr ''instances'');
         increase = dict_get params ''increase'' (PStr ''1'');
         cmd = (if metric = PStr ''instances'' then
                  ''aws autoscaling set-desired-capacity --auto-scaling-group-name '' @ tgt
                    @ '' --desired-capacity +'' @ text_of fmt increase
                else if metric = PStr ''cpu'' then
                  ''aws ec2 modify-instance-attribute --instance-id '' @ tgt
                    @ '' --instance-type t3.large''
                else ''aws autoscaling update-auto-scaling-group --auto-scaling-group-name '' @ tgt);
         ((ok, output), w1) = run_command cmd w
     in make_result ok (''AWS scale up '' @ outcome_word ok)
          [(''target'', PStr tgt), (''metric'', metric), (''increase'', increase),
           (''output'', PStr output)] w1)"

definition aws_scale_down ::
  "(pyval \<Rightarrow> string) \<Rightarrow> string \<Rightarrow> pydict \<Rightarrow> world \<Rightarrow> execution_result \<times> world" where
  "aws_scale_down fmt tgt params w =
    (let metric = dict_get params ''metric'' (PStr ''instances'');
         decrease = dict_get params ''decrease'' (PStr ''1'');
         cmd = (if metric = PStr ''instances'' then
                  ''aws autoscaling set-desired-capacity --auto-scaling-group-name '' @ tgt
                    @ '' --desired-capacity -'' @ text_of fmt decrease
                else if metric = PStr ''cpu'' then
                  ''aws ec2 modify-instance-attribute --instance-id '' @ tgt
                    @ '' --instance-type t3.small''
                else ''aws autoscaling update-auto-scaling-group --auto-scaling-group-name '' @ tgt);
         ((ok, output), w1) = run_command cmd w
     in make_result ok (''AWS scale down '' @ outcome_word ok)
          [(''target'', PStr tgt), (''metric'', metric), (''decrease'', decrease),
           (''output'', PStr output)] w1)"

definition generic_scale_up ::
  "string \<Rightarrow> pydict \<Rightarrow> world \<Rightarrow> execution_result \<times> world" where
  "generic_scale_up tgt params w =
     make_result True (''Scaled up '' @ tgt @ '' successfully'')
       [(''target'', PStr tgt), (''parameters'', PDict params)] (sleep 2 w)"

definition generic_scale_down ::
  "string \<Rightarrow> pydict \<Rightarrow> world \<Rightarrow> execution_result \<times> world" where
  "generic_scale_down tgt params w =
     make_result True (''Scaled down '' @ tgt @ '' successfully'')
       [(''target'', PStr tgt), (''parameters'', PDict params)] (sleep 2 w)"

definition gcp_scale_up ::
  "(pyval \<Rightarrow> string) \<Rightarrow> string \<Rightarrow> pydict \<Rightarrow> world \<Rightarrow> execution_result \<times> world" where
  "gcp_scale_up fmt tgt params w =
    (let metric = dict_get params ''metric'' (PStr ''instances'');
         increase = dict_get params ''increase'' (PStr ''1'');
         cmd = ''gcloud compute instance-groups managed resize '' @ tgt @ '' --size +''
                 @ text_of fmt increase;
         ((ok, output), w1) = run_command cmd w
     in make_result ok (''GCP scale up '' @ outcome_word ok)
          [(''target'', PStr tgt), (''metric'', metric), (''increase'', increase),
           (''output'', PStr output)] w1)"

definition gcp_scale_down ::
  "(pyval \<Rightarrow> string) \<Rightarrow> string \<Rightarrow> pydict \<Rightarrow> world \<Rightarrow> execution_result \<times> world" where
  "gcp_scale_down fmt tgt params w =
    (let metric = dict_get params ''metric'' (PStr ''instances'');
         decrease = dict_get params ''decrease'' (PStr ''1'');
         cmd = ''gcloud compute instance-groups managed resize '' @ tgt @ '' --size -''
                 @ text_of fmt decrease;
         ((ok, output), w1) = run_command cmd w
     in make_result ok (''GCP scale down '' @ outcome_word ok)
          [(''target'', PStr tgt), (''metric'', metric), (''decrease'', decrease),
           (''output'', PStr output)] w1)"

definition azure_scale_up ::
  "(pyval \<Rightarrow> string) \<Rightarrow> string \<Rightarrow> pydict \<Rightarrow> world \<Rightarrow> execution_result \<times> world" where
  "azure_scale_up fmt tgt params w =
    (let metric = dict_get params ''metric'' (PStr ''instances'');
         increase = dict_get params ''increase'' (PStr ''1'');
         cmd = ''az vmss scale --name '' @ tgt @ '' --new-capacity +'' @ text_of fmt increase;
         ((ok, output), w1) = run_command cmd w
     in make_result ok (''Azure scale up '' @ outcome_word ok)
          [(''target'', PStr tgt), (''metric'', metric), (''increase'', increase),
           (''output'', PStr output)] w1)"

definition azure_scale_down ::
  "(pyval \<Rightarrow> string) \<Rightarrow> string \<Rightarrow> pydict \<Rightarrow> world \<Rightarrow> execution_result \<times> world" where
  "azure_scale_down fmt tgt params w =
    (let metric = dict_get params ''metric'' (PStr ''instances'');
         decrease = dict_get params ''decrease'' (PStr ''1'');
         cmd = ''az vmss scale --name '' @ tgt @ '' --new-capacity -'' @ text_of fmt decrease;
         ((ok, output), w1) = run_command cmd w
     in make_result ok (''Azure scale down '' @ outcome_word ok)
          [(''target'', PStr tgt), (''metric'', metric), (''decrease'', decrease),
           (''output'', PStr output)] w1)"

definition execute_scale_up ::
  "(pyval \<Rightarrow> string) \<Rightarrow> executor \<Rightarrow> decision \<Rightarrow> world \<Rightarrow> execution_result \<times> world" where
  "execute_scale_up fmt ex d =
    (if executor_cloud_provider ex = PStr ''aws'' then aws_scale_up fmt (target d) (parameters d)
     else if executor_cloud_provider ex = PStr ''gcp'' then gcp_scale_up fmt (target d) (parameters d)
     else if executor_cloud_provider ex = PStr ''azure'' then
       azure_scale_up fmt (target d) (parameters d)
     else generic_scale_up (target d) (parameters d))"

definition execute_scale_down ::
  "(pyval \<Rightarrow> string) \<Rightarrow> executor \<Rightarrow> decision \<Rightarrow> world \<Rightarrow> execution_result \<times> world" where
  "execute_scale_down fmt ex d =
    (if executor_cloud_provider ex = PStr ''aws'' then aws_scale_down fmt (target d) (parameters d)
     else if executor_cloud_provider ex = PStr ''gcp'' then
       gcp_scale_down fmt (target d) (parameters d)
     else if executor_cloud_provider ex = PStr ''azure'' then
       azure_scale_down fmt (target d) (parameters d)
     else generic_scale_down (target d) (parameters d))"

subsection \<open>The other handlers\<close>

definition execute_restart_service ::
  "(pyval \<Rightarrow> string) \<Rightarrow> decision \<Rightarrow> world \<Rightarrow> execution_result \<times> world" where
  "execute_restart_service fmt d w =
    (let graceful = dict_get (parameters d) ''graceful'' (PBool True);
         timeout = dict_get (parameters d) ''timeout'' (PStr ''30s'');
         cmd = (if truthy graceful then ''systemctl reload '' @ target d
                else ''systemctl restart '' @ target d);
         ((ok, output), w1) = run_command cmd w
     in make_result ok (''Service restart '' @ outcome_word ok)
          [(''target'', PStr (target d)), (''graceful'', graceful), (''timeout'', timeout),
           (''output'', PStr output)] w1)"

definition execute_rollback :: "decision \<Rightarrow> world \<Rightarrow> execution_result \<times> world" where
  "execute_rollback d w =
     make_result True ''Rollback completed successfully''
       [(''target'', dict_get (parameters d) ''target'' (PStr ''previous_stable'')),
        (''rollback_version'', PStr ''v1.2.3'')] (sleep 5 w)"

text \<open>
  The retry loop of \<^verbatim>\<open>_execute_heal_service\<close>, with the number of iterations left and the
  loop index \<^verbatim>\<open>attempt\<close>: the index of the successful attempt, if there is one.
\<close>

definition restart_command :: "string \<Rightarrow> string" where
  "restart_command tgt = ''systemctl restart '' @ tgt"

fun heal_attempts :: "string \<Rightarrow> pyval \<Rightarrow> nat \<Rightarrow> nat \<Rightarrow> world \<Rightarrow> nat option \<times> world" where
  "heal_attempts tgt action 0 attempt w = (None, w)"
| "heal_attempts tgt action (Suc left) attempt w =
     (if action = PStr ''restart'' then
        (let ((ok, output), w1) = run_command (restart_command tgt) w
         in if ok then (Some attempt, w1)
            else heal_attempts tgt action left (Suc attempt) (sleep 5 w1))
      else heal_attempts tgt action left (Suc attempt) (sleep 5 w))"

definition execute_heal_service ::
  "(pyval \<Rightarrow> string) \<Rightarrow> decision \<Rightarrow> world \<Rightarrow> (py_exn + execution_result) \<times> world" where
  "execute_heal_service fmt d w =
    (let action = dict_get (parameters d) ''action'' (PStr ''restart'');
         max_attempts = dict_get (parameters d) ''max_attempts'' (PInt 3)
     in case py_range max_attempts of
          Inl e \<Rightarrow> (Inl e, w)
        | Inr n \<Rightarrow>
            (case heal_attempts (target d) action n 0 w of
               (Some attempt, w1) \<Rightarrow>
                 (let (r, w2) = make_result True
                        (''Service '' @ target d @ '' healed successfully'')
                        [(''target'', PStr (target d)), (''action'', action),
                         (''attempts'', PInt (int attempt + 1))] w1
                  in (Inr r, w2))
             | (None, w1) \<Rightarrow>
                 (let (r, w2) = make_result False
                        (''Failed to heal service '' @ target d @ '' after ''
                           @ text_of fmt max_attempts @ '' attempts'')
                        [(''target'', PStr (target d)), (''action'', action),
                         (''attempts'', max_attempts)] w1
                  in (Inr r, w2))))"

definition execute_optimize_performance ::
  "(pyval \<Rightarrow> string) \<Rightarrow> decision \<Rightarrow> world \<Rightarrow> (py_exn + execution_result) \<times> world" where
  "execute_optimize_performance fmt d w =
    (let action = dict_get (parameters d) ''action'' PNone;
         finish = (\<lambda>((ok, output), w1).
           (let (r, w2) = make_result ok (''Performance optimization '' @ outcome_word ok)
                  [(''target'', PStr (target d)), (''action'', action), (''output'', PStr output)] w1
            in (Inr r, w2)))
     in if action = PStr ''increase_cache_size'' then
          finish (run_command (''redis-cli CONFIG SET maxmemory +''
                     @ text_of fmt (dict_get (parameters d) ''amount'' (PStr ''50%''))) w)
        else if action = PStr ''cleanup_logs'' then
          (case all_but_last (dict_get (parameters d) ''retention'' (PStr ''7d'')) of
             Inl e \<Rightarrow> (Inl e, w)
           | Inr days \<Rightarrow>
               finish (run_command (''find /var/log -name '' @ [CHR 0x27] @ ''*.log'' @ [CHR 0x27]
                          @ '' -mtime +'' @ text_of fmt days @ '' -delete'') w))
        else if action = PStr ''identify_unused'' then
          finish (run_command ''docker system prune -f'' w)
        else finish ((True, ''Performance optimization completed''), w))"

definition execute_update_security ::
  "(pyval \<Rightarrow> string) \<Rightarrow> decision \<Rightarrow> world \<Rightarrow> execution_result \<times> world" where
  "execute_update_security fmt d w =
    (let action = dict_get (parameters d) ''action'' PNone;
         ((ok, output), w1) =
           (if action = PStr ''block_suspicious_ips'' then
              run_command ''iptables -A INPUT -s suspicious_ip -j DROP'' w
            else if action = PStr ''renew_certificates'' then
              run_command ''certbot renew --quiet'' w
            else ((True, ''Security update completed''), w))
     in make_result ok (''Security update '' @ outcome_word ok)
          [(''target'', PStr (target d)), (''action'', action), (''output'', PStr output)] w1)"

definition execute_update_config :: "decision \<Rightarrow> world \<Rightarrow> execution_result \<times> world" where
  "execute_update_config d w =
     make_result True (''Configuration updated for '' @ target d)
       [(''target'', PStr (target d)),
        (''changes'', dict_get (parameters d) ''changes'' (PDict []))] (sleep 2 w)"

subsection \<open>execute\_action\<close>

text \<open>
  The \<^verbatim>\<open>if\<close>/\<^verbatim>\<open>elif\<close> chain inside the \<^verbatim>\<open>try\<close> block: the handler for the action
  type, or the failure result of the final \<^verbatim>\<open>else\<close>. \<open>Inl\<close> is an exception raised
  by the handler.
\<close>

definition never_raises ::
  "execution_result \<times> world \<Rightarrow> (py_exn + execution_result) \<times> world" where
  "never_raises rw = (Inr (fst rw), snd rw)"

definition dispatch ::
  "(pyval \<Rightarrow> string) \<Rightarrow> executor \<Rightarrow> decision \<Rightarrow> world \<Rightarrow> (py_exn + execution_result) \<times> world" where
  "dispatch fmt ex d w =
    (if action_type d = SCALE_UP then never_raises (execute_scale_up fmt ex d w)
     else if action_type d = SCALE_DOWN then never_raises (execute_scale_down fmt ex d w)
     else if action_type d = RESTART_SERVICE then never_raises (execute_restart_service fmt d w)
     else if action_type d = ROLLBACK then never_raises (execute_rollback d w)
     else if action_type d = HEAL_SERVICE then execute_heal_service fmt d w
     else if action_type d = OPTIMIZE_PERFORMANCE then execute_optimize_performance fmt d w
     else if action_type d = UPDATE_SECURITY then never_raises (execute_update_security fmt d w)
     else if action_type d = UPDATE_CONFIG then never_raises (execute_update_config d w)
     else never_raises
            (make_result False
               (''Unknown action type: ActionType.'' @ action_type_name (action_type d)) [] w))"

definition seconds :: "time \<Rightarrow> real" where
  "seconds dt = real_of_int dt / 1000000"

text \<open>
  \<^verbatim>\<open>execute_action\<close>: the result of the \<^verbatim>\<open>try\<close> block with its measured time, or the
  failure result the \<^verbatim>\<open>except\<close> clause builds for an exception; either is appended to
  the history. \<open>Inl\<close> would be an exception leaving \<^verbatim>\<open>execute_action\<close>.
\<close>

definition execute_action ::
  "(pyval \<Rightarrow> string) \<Rightarrow> executor \<Rightarrow> decision \<Rightarrow> world
     \<Rightarrow> (py_exn + execution_result) \<times> executor \<times> world" where
  "execute_action fmt ex d w =
    (let (start_time, w0) = now w;
         (outcome, w1) = dispatch fmt ex d w0
     in case outcome of
          Inr result \<Rightarrow>
            (let (t, w2) = now w1;
                 result1 = result\<lparr>execution_time := seconds (t - start_time)\<rparr>
             in (Inr result1, ex\<lparr>execution_history := execution_history ex @ [result1]\<rparr>, w2))
        | Inl e \<Rightarrow>
            (let (t, w2) = now w1;
                 execution_time = seconds (t - start_time);
                 (t', w3) = now w2;
                 result = \<lparr>success = False,
                           result_message = ''Action execution failed: '' @ exn_text e,
                           details = [(''error'', PStr (exn_text e)),
                                      (''action_type'', PStr (action_type_value (action_type d)))],
                           execution_time = execution_time, result_timestamp = t'\<rparr>
             in (Inr result, ex\<lparr>execution_history := execution_history ex @ [result]\<rparr>, w3)))"

subsection \<open>execute\_deployment\<close>




record deployment_results =
  overall_success :: bool
  stage_results :: "execution_result list"
  deployment_id :: time
  start_time :: time
  end_time :: "time option"
  error :: "string option"





section \<open>Example inputs\<close>

definition example_world :: world where
  "example_world = \<lparr>time_src = (\<lambda>n. 1700000000 * second + int n * 1000), reads = 0,
     cmd_success = (\<lambda>n. True), cmd_log = [], slept = 0\<rparr>"

definition example_context :: project_context where
  "example_context = \<lparr>repo_url = ''https://github.com/user/repo'', project_type = ''python'',
     languages = [''python''], frameworks = [], dependencies = [], deployment_requirements = [],
     security_requirements = [], performance_requirements = [(''estimated_scale'', PStr ''small'')],
     database_usage = [], environment_variables = [], build_tools = []\<rparr>"

definition quiet_state :: system_state where
  "quiet_state = \<lparr>cpu_usage = 50, memory_usage = 50, disk_usage = 35, network_usage = 25,
     response_time = 0.8, error_rate = 1.5, request_count = 150,
     service_health = [(''web'', True), (''api'', True), (''database'', True),
                       (''cache'', True), (''queue'', True)],
     alerts = [], deployment_status = ''stable'', last_deployment = None\<rparr>"

text \<open>A heal decision for one service.\<close>

definition is_heal_for :: "string \<Rightarrow> decision \<Rightarrow> bool" where
  "is_heal_for s d = (action_type d = HEAL_SERVICE \<and> target d = s)"

definition one_unhealthy_state :: system_state where
  "one_unhealthy_state = quiet_state\<lparr>service_health :=
     [(''web'', True), (''api'', False), (''database'', True),
      (''cache'', True), (''queue'', True)]\<rparr>"

definition six_unhealthy_state :: system_state where
  "six_unhealthy_state = quiet_state\<lparr>service_health :=
     [(''web'', False), (''api'', False), (''database'', False),
      (''cache'', False), (''queue'', False), (''search'', False)]\<rparr>"

definition scale_up_outcome :: "real \<Rightarrow> real \<Rightarrow> action_outcome" where
  "scale_up_outcome cpu eff =
     \<lparr>outcome_decision =
        \<lparr>action_type = SCALE_UP, priority = HIGH, target = ''compute'',
         parameters = [(''metric'', PStr ''cpu''), (''increase'', PStr ''25%'')],
         reasoning = [Lit ''CPU usage at '', Val (PFloat cpu), Lit ''% exceeds threshold''],
         timestamp = 0,
         expected_outcome = ''Reduced CPU load and improved response times'',
         rollback_plan = None\<rparr>,
      execution_success = True,
      system_state_before = quiet_state\<lparr>cpu_usage := cpu\<rparr>,
      system_state_after = None,
      outcome_metrics = [(''overall_effectiveness'', eff)],
      outcome_timestamp = 0\<rparr>"

definition ten_outcomes :: "action_outcome list" where
  "ten_outcomes =
     [scale_up_outcome 81 0.6, scale_up_outcome 82 0.3, scale_up_outcome 83 0.8,
      scale_up_outcome 84 0.5, scale_up_outcome 85 1, scale_up_outcome 86 0,
      scale_up_outcome 87 0.6, scale_up_outcome 88 0.2, scale_up_outcome 89 0.7,
      scale_up_outcome 90 0.4]"

definition example_alert :: "string \<Rightarrow> time \<Rightarrow> alert" where
  "example_alert name t = \<lparr>alert_id = name, alert_type = ''performance'', severity = ''high'',
     message = ''High CPU usage: 95%'', alert_timestamp = t\<rparr>"

definition example_monitoring :: monitoring_system where
  "example_monitoring = (init_monitoring [])\<lparr>is_monitoring := True, current_alerts :=
     [example_alert ''old'' (1700000000 * second - 2 * hour),
      example_alert ''young'' (1700000000 * second - 600 * second)]\<rparr>"

definition quiet_sample :: sample where
  "quiet_sample = \<lparr>sample_cpu = 50, sample_memory = 50, sample_disk = 35, sample_network = 25,
     sample_response_time = 0.8, sample_error_rate = 1.5, sample_request_count = 150,
     sample_service_health = [(''web'', True), (''api'', True), (''database'', True),
                              (''cache'', True), (''queue'', True)]\<rparr>"

definition no_rolls :: rolls where
  "no_rolls = \<lparr>security_roll = 0.5, ssl_roll = 0.5\<rparr>"

text \<open>An agent after one decision cycle, and the world that cycle left.\<close>

definition later_world :: world where
  "later_world = snd (snd (make_decisions (init_engine []) one_unhealthy_state
                             example_context example_world))"

definition example_agent :: devops_agent where
  "example_agent = \<lparr>is_running = True, agent_project_context = Some example_context,
     decision_engine = fst (snd (make_decisions (init_engine []) one_unhealthy_state
                                   example_context example_world)),
     monitoring_system = example_monitoring,
     infra_manager = \<lparr>cloud_provider = PStr ''aws'', resources = []\<rparr>\<rparr>"

text \<open>
  An agent whose history holds a decision two hours old and a fresh one; an agent whose only
  decision is as old as the first clock reading, and a world whose clock moves twenty
  minutes at each reading.
\<close>

definition mixed_agent :: devops_agent where
  "mixed_agent = example_agent\<lparr>decision_engine :=
     (init_engine [])\<lparr>decision_history :=
        [heal_decision ''web'' (1700000000 * second - 2 * hour),
         heal_decision ''api'' (1700000000 * second)]\<rparr>\<rparr>"

definition aging_agent :: devops_agent where
  "aging_agent = example_agent\<lparr>decision_engine :=
     (init_engine [])\<lparr>decision_history := [heal_decision ''api'' (1700000000 * second)]\<rparr>\<rparr>"

definition slow_world :: world where
  "slow_world = \<lparr>time_src = (\<lambda>n. 1700000000 * second + int n * (1200 * second)), reads = 0,
     cmd_success = (\<lambda>n. True), cmd_log = [], slept = 0\<rparr>"

text \<open>Inputs for the executor: a world whose commands all fail, and some decisions.\<close>

definition failing_world :: world where
  "failing_world = example_world\<lparr>cmd_success := (\<lambda>n. False)\<rparr>"

definition plain_text :: "pyval \<Rightarrow> string" where
  "plain_text v = (case v of PInt i \<Rightarrow> (if i = 3 then ''3'' else ''?'') | _ \<Rightarrow> ''?'')"

definition bare_heal_decision :: decision where
  "bare_heal_decision = (heal_decision ''api'' 0)\<lparr>parameters := []\<rparr>"

definition alert_decision :: decision where
  "alert_decision = \<lparr>action_type = CREATE_ALERT, priority = LOW, target = ''ops'',
     parameters = [], reasoning = [Lit ''Notify the operators''], timestamp = 0,
     expected_outcome = ''Operators informed'', rollback_plan = None\<rparr>"

definition bad_cleanup_decision :: decision where
  "bad_cleanup_decision = \<lparr>action_type = OPTIMIZE_PERFORMANCE, priority = MEDIUM,
     target = ''storage'',
     parameters = [(''action'', PStr ''cleanup_logs''), (''retention'', PInt 7)],
     reasoning = [Lit ''Disk usage is critical''], timestamp = 0,
     expected_outcome = ''Free disk space'', rollback_plan = None\<rparr>"

definition disabled_config :: pydict where
  "disabled_config = [(''default_cloud'', PStr ''aws''), (''monitoring_interval'', PInt 60),
     (''auto_scale'', PBool False), (''auto_heal'', PBool False)]"

definition hot_unhealthy_state :: system_state where
  "hot_unhealthy_state = quiet_state\<lparr>cpu_usage := 85, service_health :=
     [(''web'', True), (''api'', False), (''database'', True),
      (''cache'', True), (''queue'', True)]\<rparr>"

text \<open>
  The decisions \<open>ds\<close> produced between the worlds \<open>w\<close> and \<open>w'\<close> carry clock
  readings taken in between; \<open>within_a_day\<close> says that none of the readings taken while
  the analyzers run is 24 hours or more before the reading that sets the history cutoff.
\<close>

definition stamped_by :: "world \<Rightarrow> decision list \<Rightarrow> world \<Rightarrow> bool" where
  "stamped_by w ds w' =
     (time_src w' = time_src w \<and> reads w \<le> reads w'
      \<and> (\<forall>d\<in>set ds. \<exists>i. reads w \<le> i \<and> i < reads w' \<and> timestamp d = time_src w i))"

definition stamping :: "(world \<Rightarrow> decision list \<times> world) \<Rightarrow> bool" where
  "stamping m = (\<forall>w. stamped_by w (fst (m w)) (snd (m w)))"

definition within_a_day ::
  "engine \<Rightarrow> system_state \<Rightarrow> project_context \<Rightarrow> world \<Rightarrow> bool" where
  "within_a_day e state ctx w =
     (\<forall>i. reads w \<le> i \<and> i < reads (snd (generated_decisions e state ctx w)) \<longrightarrow>
          fst (now (snd (generated_decisions e state ctx w))) - time_src w i < 24 * hour)"






section \<open>Properties of the decision engine\<close>

lemma sort_by_priority_sorted:
  "sorted_wrt (\<lambda>a b. priority_value (priority b) \<le> priority_value (priority a))
     (sort_by_priority ds)"
proof -
  have "sorted (map (\<lambda>d. - priority_value (priority d)) (sort_by_priority ds))"
    unfolding sort_by_priority_def by (rule sorted_sort_key)
  then show ?thesis by (simp add: sorted_map)
qed

lemma sort_by_priority_stable:
  "filter (\<lambda>d. priority d = p) (sort_by_priority ds) = filter (\<lambda>d. priority d = p) ds"
proof -
  have inj: "\<And>d. (- priority_value (priority d) = - priority_value p) = (priority d = p)"
    by (case_tac "priority d"; cases p; simp)
  have "filter (\<lambda>d. - priority_value (priority d) = - priority_value p) (sort_by_priority ds)
        = filter (\<lambda>d. - priority_value (priority d) = - priority_value p) ds"
    unfolding sort_by_priority_def by (rule sort_key_stable)
  then show ?thesis by (simp only: inj)
qed

lemma make_decisions_result:
  "fst (make_decisions e state ctx w)
   = take 5 (sort_by_priority (fst (generated_decisions e state ctx w)))"
  by (simp add: make_decisions_def Let_def split_def)

text \<open>
  C1. For every system state and project context, \<^verbatim>\<open>make_decisions\<close> returns at most
  five decisions, in order of non-increasing priority; and among the returned decisions of
  one priority the order is that of the analyzers: they are an initial part of the
  performance decisions of that priority, followed by the health, the security and the
  cost decisions of that priority.
\<close>

theorem make_decisions_capped_sorted_by_analyzer:
  "length (fst (make_decisions e state ctx w)) \<le> 5
   \<and> sorted_wrt (\<lambda>a b. priority_value (priority b) \<le> priority_value (priority a))
        (fst (make_decisions e state ctx w))
   \<and> (\<forall>p. prefix (filter (\<lambda>d. priority d = p) (fst (make_decisions e state ctx w)))
          (filter (\<lambda>d. priority d = p) (fst (analyze_performance_decisions e state ctx w))
         @ filter (\<lambda>d. priority d = p)
             (fst (analyze_health_decisions e state ctx
                (snd (analyze_performance_decisions e state ctx w))))
         @ filter (\<lambda>d. priority d = p)
             (fst (analyze_security_decisions e state ctx
                (snd (analyze_health_decisions e state ctx
                   (snd (analyze_performance_decisions e state ctx w))))))
         @ filter (\<lambda>d. priority d = p)
             (fst (analyze_cost_decisions e state ctx
                (snd (analyze_security_decisions e state ctx
                   (snd (analyze_health_decisions e state ctx
                      (snd (analyze_performance_decisions e state ctx w))))))))))"
proof -
  let ?ds = "fst (make_decisions e state ctx w)"
  let ?gen = "fst (generated_decisions e state ctx w)"
  have ds: "?ds = take 5 (sort_by_priority ?gen)"
    by (rule make_decisions_result)
  have len: "length ?ds \<le> 5" by (simp add: ds)
  have srt: "sorted_wrt (\<lambda>a b. priority_value (priority b) \<le> priority_value (priority a)) ?ds"
    unfolding ds by (rule sorted_wrt_take) (rule sort_by_priority_sorted)
  have pre: "prefix (filter (\<lambda>d. priority d = p) ?ds) (filter (\<lambda>d. priority d = p) ?gen)" for p
  proof -
    have "prefix (filter (\<lambda>d. priority d = p) ?ds)
            (filter (\<lambda>d. priority d = p) (sort_by_priority ?gen))"
      unfolding ds by (rule filter_mono_prefix) (rule take_is_prefix)
    then show ?thesis by (simp only: sort_by_priority_stable)
  qed
  have gen: "?gen = fst (analyze_performance_decisions e state ctx w)
         @ fst (analyze_health_decisions e state ctx
                (snd (analyze_performance_decisions e state ctx w)))
         @ fst (analyze_security_decisions e state ctx
                (snd (analyze_health_decisions e state ctx
                   (snd (analyze_performance_decisions e state ctx w)))))
         @ fst (analyze_cost_decisions e state ctx
                (snd (analyze_security_decisions e state ctx
                   (snd (analyze_health_decisions e state ctx
                      (snd (analyze_performance_decisions e state ctx w)))))))"
    by (simp add: generated_decisions_def then_do_def Let_def split_def)
  from pre have "\<forall>p. prefix (filter (\<lambda>d. priority d = p) ?ds) (filter (\<lambda>d. priority d = p) ?gen)"
    by blast
  with len srt show ?thesis
    unfolding gen filter_append by blast
qed

lemma sorted_least_first:
  "sorted (map f xs) \<Longrightarrow> \<forall>x\<in>set xs. m \<le> f x \<Longrightarrow>
   xs = filter (\<lambda>x. f x = m) xs @ filter (\<lambda>x. f x \<noteq> m) xs"
proof (induction xs)
  case Nil
  then show ?case by simp
next
  case (Cons x xs)
  show ?case
  proof (cases "f x = m")
    case True
    with Cons show ?thesis by simp
  next
    case False
    with Cons.prems have "\<forall>y\<in>set xs. f y \<noteq> m" by fastforce
    then have "filter (\<lambda>x. f x = m) xs = []" "filter (\<lambda>x. f x \<noteq> m) xs = xs"
      by (simp_all add: filter_empty_conv)
    with False show ?thesis by simp
  qed
qed

lemma critical_key: "(- priority_value (priority d) = - 4) = (priority d = CRITICAL)"
  by (cases "priority d") simp_all

lemma critical_least: "- 4 \<le> - priority_value (priority d)"
  by (cases "priority d") simp_all

lemma sort_by_priority_critical_first:
  "sort_by_priority ds
   = filter (\<lambda>d. priority d = CRITICAL) ds
     @ filter (\<lambda>d. priority d \<noteq> CRITICAL) (sort_by_priority ds)"
proof -
  let ?f = "\<lambda>d. - priority_value (priority d)"
  have "sorted (map ?f (sort_by_priority ds))"
    unfolding sort_by_priority_def by (rule sorted_sort_key)
  moreover have "\<forall>d\<in>set (sort_by_priority ds). - 4 \<le> ?f d"
    using critical_least by blast
  ultimately have "sort_by_priority ds
     = filter (\<lambda>d. ?f d = - 4) (sort_by_priority ds)
       @ filter (\<lambda>d. ?f d \<noteq> - 4) (sort_by_priority ds)"
    by (rule sorted_least_first)
  then have "sort_by_priority ds
     = filter (\<lambda>d. priority d = CRITICAL) (sort_by_priority ds)
       @ filter (\<lambda>d. priority d \<noteq> CRITICAL) (sort_by_priority ds)"
    by (simp only: critical_key)
  then show ?thesis by (simp only: sort_by_priority_stable)
qed

lemma fst_then_do: "fst (then_do m1 m2 w) = fst (m1 w) @ fst (m2 (snd (m1 w)))"
  by (simp add: then_do_def split_def Let_def)

lemma snd_then_do: "snd (then_do m1 m2 w) = snd (m2 (snd (m1 w)))"
  by (simp add: then_do_def split_def Let_def)

lemma fst_emit: "fst (emit mk w) = [mk (time_src w (reads w))]"
  by (simp add: emit_def with_now_def now_def)

lemma snd_emit: "snd (emit mk w) = w\<lparr>reads := Suc (reads w)\<rparr>"
  by (simp add: emit_def with_now_def now_def)

lemma fst_skip: "fst (skip w) = []"
  by (simp add: skip_def)

lemma snd_skip: "snd (skip w) = w"
  by (simp add: skip_def)

lemma with_now_eq: "with_now f w = f (time_src w (reads w)) (w\<lparr>reads := Suc (reads w)\<rparr>)"
  by (simp add: with_now_def now_def)

lemmas run_simps = fst_then_do snd_then_do fst_emit snd_emit fst_skip snd_skip with_now_eq

lemma heal_decisions_targets:
  "map target (fst (heal_decisions sh w)) = map fst (filter (\<lambda>(s, h). \<not> h) sh)"
  by (induction sh arbitrary: w) (auto simp: run_simps heal_decision_def)

lemma heal_decisions_kind:
  "d \<in> set (fst (heal_decisions sh w)) \<Longrightarrow> action_type d = HEAL_SERVICE \<and> priority d = CRITICAL"
  by (induction sh arbitrary: w) (auto simp: run_simps heal_decision_def split: if_splits)

lemma performance_not_critical:
  "d \<in> set (fst (analyze_performance_decisions e state ctx w)) \<Longrightarrow>
     priority d \<noteq> CRITICAL \<and> action_type d \<noteq> HEAL_SERVICE"
  by (auto simp: analyze_performance_decisions_def run_simps split: if_splits)

lemma security_alert_not_heal:
  "d \<in> set (fst (security_alert_decisions as w)) \<Longrightarrow> action_type d \<noteq> HEAL_SERVICE"
  by (induction as arbitrary: w) (auto simp: run_simps split: if_splits)

lemma ssl_expiry_not_heal:
  "d \<in> set (fst (ssl_expiry_decisions as w)) \<Longrightarrow> action_type d \<noteq> HEAL_SERVICE"
  by (induction as arbitrary: w) (auto simp: run_simps split: if_splits)

lemma security_not_heal:
  "d \<in> set (fst (analyze_security_decisions e state ctx w)) \<Longrightarrow> action_type d \<noteq> HEAL_SERVICE"
  by (auto simp: analyze_security_decisions_def run_simps
      dest: security_alert_not_heal ssl_expiry_not_heal)

lemma cost_not_heal:
  "d \<in> set (fst (analyze_cost_decisions e state ctx w)) \<Longrightarrow> action_type d \<noteq> HEAL_SERVICE"
  by (auto simp: analyze_cost_decisions_def run_simps Let_def split: if_splits)


lemma health_heal_only:
  "filter (\<lambda>d. action_type d = HEAL_SERVICE) (fst (analyze_health_decisions e state ctx w))
   = fst (heal_decisions (service_health state) w)"
proof -
  have "filter (\<lambda>d. action_type d = HEAL_SERVICE) (fst (heal_decisions sh w)) = fst (heal_decisions sh w)" for sh
    by (simp add: heal_decisions_kind)
  then show ?thesis
    by (auto simp: analyze_health_decisions_def run_simps rollback_decision_def restart_decision_def
        split: option.splits)
qed

lemma health_critical_prefix:
  "\<exists>rest. fst (analyze_health_decisions e state ctx w)
      = fst (heal_decisions (service_health state) w) @ rest
    \<and> (\<forall>d\<in>set rest. action_type d \<noteq> HEAL_SERVICE)"
  by (auto simp: analyze_health_decisions_def run_simps rollback_decision_def restart_decision_def
      split: option.splits)

lemma single_match:
  "distinct (map f xs) \<Longrightarrow> s \<in> f ` set xs \<Longrightarrow> \<exists>x\<in>set xs. filter (\<lambda>x. f x = s) xs = [x]"
proof (induction xs)
  case Nil
  then show ?case by simp
next
  case (Cons a xs)
  show ?case
  proof (cases "f a = s")
    case True
    with Cons.prems have "s \<notin> f ` set xs" by simp
    then have "\<forall>x\<in>set xs. f x \<noteq> s" by blast
    then have "filter (\<lambda>x. f x = s) xs = []" by (simp add: filter_empty_conv)
    with True show ?thesis by simp
  next
    case False
    with Cons.prems have "distinct (map f xs)" "s \<in> f ` set xs" by auto
    then obtain x where "x \<in> set xs" "filter (\<lambda>x. f x = s) xs = [x]"
      using Cons.IH by blast
    with False show ?thesis by auto
  qed
qed

lemma make_decisions_heal_part:
  "filter (is_heal_for s) (fst (make_decisions e state ctx w))
   = filter (\<lambda>d. target d = s)
       (take 5 (fst (heal_decisions (service_health state)
                  (snd (analyze_performance_decisions e state ctx w)))))"
proof -
  let ?w1 = "snd (analyze_performance_decisions e state ctx w)"
  let ?perf = "fst (analyze_performance_decisions e state ctx w)"
  let ?H = "fst (heal_decisions (service_health state) ?w1)"
  let ?gen = "fst (generated_decisions e state ctx w)"
  obtain hrest where hrest: "fst (analyze_health_decisions e state ctx ?w1) = ?H @ hrest"
    and hrest_nh: "\<forall>d\<in>set hrest. action_type d \<noteq> HEAL_SERVICE"
    using health_critical_prefix by blast
  define others where "others = hrest
     @ fst (analyze_security_decisions e state ctx (snd (analyze_health_decisions e state ctx ?w1)))
     @ fst (analyze_cost_decisions e state ctx
         (snd (analyze_security_decisions e state ctx (snd (analyze_health_decisions e state ctx ?w1)))))"
  have gen: "?gen = ?perf @ ?H @ others"
    by (simp add: generated_decisions_def run_simps hrest others_def)
  have others_nh: "\<forall>d\<in>set others. action_type d \<noteq> HEAL_SERVICE"
    unfolding others_def using hrest_nh security_not_heal cost_not_heal by auto
  have H_crit: "\<forall>d\<in>set ?H. action_type d = HEAL_SERVICE \<and> priority d = CRITICAL"
    using heal_decisions_kind by blast
  have perf_nc: "\<forall>d\<in>set ?perf. priority d \<noteq> CRITICAL \<and> action_type d \<noteq> HEAL_SERVICE"
    using performance_not_critical by blast
  have crit: "filter (\<lambda>d. priority d = CRITICAL) ?gen
              = ?H @ filter (\<lambda>d. priority d = CRITICAL) others"
    using H_crit perf_nc by (simp add: gen filter_empty_conv filter_id_conv)
  define R where "R = filter (\<lambda>d. priority d = CRITICAL) others
     @ filter (\<lambda>d. priority d \<noteq> CRITICAL) (sort_by_priority ?gen)"
  have sorted_eq: "sort_by_priority ?gen = ?H @ R"
    using sort_by_priority_critical_first [of ?gen] by (simp add: crit R_def)
  have "set (sort_by_priority ?gen) = set ?gen"
    by (simp add: sort_by_priority_def)
  then have R_nh: "\<forall>d\<in>set R. action_type d \<noteq> HEAL_SERVICE"
    unfolding R_def using others_nh perf_nc H_crit by (auto simp: gen)
  have "fst (make_decisions e state ctx w) = take 5 ?H @ take (5 - length ?H) R"
    by (simp add: make_decisions_result sorted_eq)
  moreover have "filter (is_heal_for s) (take (5 - length ?H) R) = []"
    using R_nh by (auto simp: filter_empty_conv is_heal_for_def dest: in_set_takeD)
  moreover have "filter (is_heal_for s) (take 5 ?H) = filter (\<lambda>d. target d = s) (take 5 ?H)"
    using H_crit by (auto simp: is_heal_for_def intro!: filter_cong dest: in_set_takeD)
  ultimately show ?thesis by simp
qed

text \<open>
  C6 (as amended). In a state whose \<^verbatim>\<open>service_health\<close> has distinct keys, a service that
  is among the first five unhealthy services of the dictionary (every unhealthy service,
  when at most five are unhealthy) gets exactly one \<^verbatim>\<open>heal_service\<close> decision in the
  list \<^verbatim>\<open>make_decisions\<close> returns, and that decision has priority CRITICAL.
\<close>

theorem unhealthy_service_heal_decision:
  assumes "distinct (map fst (service_health state))"
      and "s \<in> set (take 5 (map fst (filter (\<lambda>(n, h). \<not> h) (service_health state))))"
  shows "\<exists>d. filter (is_heal_for s) (fst (make_decisions e state ctx w)) = [d]
           \<and> priority d = CRITICAL"
proof -
  let ?H = "fst (heal_decisions (service_health state)
                  (snd (analyze_performance_decisions e state ctx w)))"
  have targets: "map target (take 5 ?H)
                 = take 5 (map fst (filter (\<lambda>(n, h). \<not> h) (service_health state)))"
    by (simp add: heal_decisions_targets flip: take_map)
  have "distinct (map fst (filter (\<lambda>(n, h). \<not> h) (service_health state)))"
    using assms(1) by (rule distinct_map_filter)
  then have "distinct (map target (take 5 ?H))"
    unfolding targets by (rule distinct_take)
  moreover have "s \<in> target ` set (take 5 ?H)"
    using assms(2) targets by (metis set_map)
  ultimately obtain d where d: "d \<in> set (take 5 ?H)"
      "filter (\<lambda>d. target d = s) (take 5 ?H) = [d]"
    using single_match [of target "take 5 ?H" s] by blast
  from d(1) have "d \<in> set ?H" by (rule in_set_takeD)
  then have "priority d = CRITICAL" by (simp add: heal_decisions_kind)
  with d(2) show ?thesis by (auto simp: make_decisions_heal_part)
qed



lemmas engine_defs = make_decisions_def generated_decisions_def analyze_performance_decisions_def
   analyze_health_decisions_def analyze_security_decisions_def analyze_cost_decisions_def
   init_engine_def load_thresholds_def then_do_def emit_def skip_def with_now_def now_def
   sort_by_priority_def heal_decision_def rollback_decision_def restart_decision_def
   hour_of_def hour_def second_def Let_def dict_get_def

lemmas example_defs = one_unhealthy_state_def six_unhealthy_state_def quiet_state_def
   example_context_def example_world_def

theorem unhealthy_service_heal_decision_witness:
  "distinct (map fst (service_health one_unhealthy_state))
   \<and> ''api'' \<in> set (take 5 (map fst (filter (\<lambda>(n, h). \<not> h) (service_health one_unhealthy_state))))
   \<and> (\<exists>d. filter (is_heal_for ''api'')
             (fst (make_decisions (init_engine []) one_unhealthy_state example_context example_world))
           = [d] \<and> priority d = CRITICAL)"
proof -
  have h1: "distinct (map fst (service_health one_unhealthy_state))"
    by (simp add: example_defs)
  have h2: "''api'' \<in> set (take 5 (map fst (filter (\<lambda>(n, h). \<not> h)
                (service_health one_unhealthy_state))))"
    by (simp add: example_defs)
  from unhealthy_service_heal_decision [OF h1 h2] h1 h2 show ?thesis by blast
qed

text \<open>
  With six unhealthy services the cap cuts the sixth heal decision: the claim as stated,
  for every system state, fails.
\<close>

theorem six_unhealthy_counterexample:
  "distinct (map fst (service_health six_unhealthy_state))
   \<and> (''search'', False) \<in> set (service_health six_unhealthy_state)
   \<and> filter (is_heal_for ''search'')
       (fst (make_decisions (init_engine []) six_unhealthy_state example_context example_world)) = []"
  by (simp add: engine_defs example_defs is_heal_for_def)

lemma stamped_by_refl: "stamped_by w [] w"
  by (simp add: stamped_by_def)

lemma stamped_by_trans:
  assumes "stamped_by w ds1 w1" and "stamped_by w1 ds2 w2"
  shows "stamped_by w (ds1 @ ds2) w2"
proof -
  have ts: "time_src w1 = time_src w" "time_src w2 = time_src w"
    and le: "reads w \<le> reads w1" "reads w1 \<le> reads w2"
    using assms by (simp_all add: stamped_by_def)
  have "\<exists>i. reads w \<le> i \<and> i < reads w2 \<and> timestamp d = time_src w i"
    if "d \<in> set (ds1 @ ds2)" for d
  proof (cases "d \<in> set ds1")
    case True
    then obtain i where "reads w \<le> i" "i < reads w1" "timestamp d = time_src w i"
      using assms(1) unfolding stamped_by_def by blast
    with le show ?thesis by (intro exI [of _ i]) simp
  next
    case False
    with that have "d \<in> set ds2" by simp
    then obtain i where "reads w1 \<le> i" "i < reads w2" "timestamp d = time_src w1 i"
      using assms(2) unfolding stamped_by_def by blast
    with le ts show ?thesis by (intro exI [of _ i]) simp
  qed
  with ts le show ?thesis unfolding stamped_by_def by simp
qed

lemma stamping_skip: "stamping skip"
  by (simp add: stamping_def stamped_by_def skip_def)

lemma stamped_by_now:
  "stamped_by (w\<lparr>reads := Suc (reads w)\<rparr>) ds w' \<Longrightarrow> stamped_by w ds w'"
  unfolding stamped_by_def
proof (intro conjI ballI)
  assume a: "time_src w' = time_src (w\<lparr>reads := Suc (reads w)\<rparr>) \<and>
    reads (w\<lparr>reads := Suc (reads w)\<rparr>) \<le> reads w' \<and>
    (\<forall>d\<in>set ds. \<exists>i\<ge>reads (w\<lparr>reads := Suc (reads w)\<rparr>). i < reads w' \<and>
        timestamp d = time_src (w\<lparr>reads := Suc (reads w)\<rparr>) i)"
  then show "time_src w' = time_src w" by simp
  from a show "reads w \<le> reads w'" by simp
  fix d assume "d \<in> set ds"
  with a obtain i where "Suc (reads w) \<le> i" "i < reads w'" "timestamp d = time_src w i"
    by auto
  then show "\<exists>i\<ge>reads w. i < reads w' \<and> timestamp d = time_src w i"
    by (intro exI [of _ i]) simp
qed

lemma stamping_with_now: "(\<And>t. stamping (f t)) \<Longrightarrow> stamping (with_now f)"
  unfolding stamping_def
  by (simp add: with_now_def now_def stamped_by_now)

lemma stamping_emit: "(\<And>t. timestamp (mk t) = t) \<Longrightarrow> stamping (emit mk)"
  unfolding stamping_def stamped_by_def
proof (intro allI)
  fix w :: world assume "\<And>t. timestamp (mk t) = t"
  then have "\<exists>i\<ge>reads w. i < Suc (reads w) \<and> timestamp (mk (time_src w (reads w))) = time_src w i"
    by (intro exI [of _ "reads w"]) simp
  then show "time_src (snd (emit mk w)) = time_src w \<and> reads w \<le> reads (snd (emit mk w)) \<and>
         (\<forall>d\<in>set (fst (emit mk w)). \<exists>i\<ge>reads w. i < reads (snd (emit mk w)) \<and> timestamp d = time_src w i)"
    by (simp add: emit_def with_now_def now_def)
qed

lemma stamping_then: "stamping m1 \<Longrightarrow> stamping m2 \<Longrightarrow> stamping (then_do m1 m2)"
  unfolding stamping_def
  by (auto simp: then_do_def split_def Let_def intro: stamped_by_trans)

lemma stamping_if: "stamping m1 \<Longrightarrow> stamping m2 \<Longrightarrow> stamping (if b then m1 else m2)"
  by simp

lemmas stamping_intros = stamping_then stamping_if stamping_emit stamping_skip stamping_with_now

lemma stamping_performance: "stamping (analyze_performance_decisions e state ctx)"
  unfolding analyze_performance_decisions_def
  by (intro stamping_intros) simp_all

lemma stamping_heal: "stamping (heal_decisions sh)"
  by (induction sh) (auto simp: heal_decision_def intro!: stamping_intros)

lemma stamping_health: "stamping (analyze_health_decisions e state ctx)"
  unfolding analyze_health_decisions_def
  by (cases "last_deployment state")
     (auto simp: rollback_decision_def restart_decision_def stamping_heal intro!: stamping_intros)

lemma stamping_security_alerts: "stamping (security_alert_decisions as)"
  by (induction as) (auto intro!: stamping_intros)

lemma stamping_ssl: "stamping (ssl_expiry_decisions as)"
  by (induction as) (auto intro!: stamping_intros)

lemma stamping_security: "stamping (analyze_security_decisions e state ctx)"
  unfolding analyze_security_decisions_def
  by (intro stamping_then stamping_security_alerts stamping_ssl)

lemma stamping_cost: "stamping (analyze_cost_decisions e state ctx)"
  unfolding analyze_cost_decisions_def Let_def
  by (intro stamping_intros) simp_all

lemma stamping_generated: "stamping (generated_decisions e state ctx)"
  unfolding generated_decisions_def
  by (intro stamping_then stamping_performance stamping_health stamping_security stamping_cost)


lemma generated_before_cutoff:
  assumes "mono (time_src w)" and "d \<in> set (fst (generated_decisions e state ctx w))"
  shows "timestamp d \<le> fst (now (snd (generated_decisions e state ctx w)))"
proof -
  let ?w4 = "snd (generated_decisions e state ctx w)"
  have st: "stamped_by w (fst (generated_decisions e state ctx w)) ?w4"
    using stamping_generated by (simp add: stamping_def)
  then obtain i where i: "i < reads ?w4" "timestamp d = time_src w i"
    using assms(2) unfolding stamped_by_def by blast
  from st have "time_src ?w4 = time_src w" by (simp add: stamped_by_def)
  moreover from i(1) assms(1) have "time_src w i \<le> time_src w (reads ?w4)"
    by (simp add: monoD)
  ultimately show ?thesis using i(2) by (simp add: now_def)
qed

lemma analyzers_ignore_config:
  "analyze_performance_decisions (e\<lparr>config := cfg\<rparr>) = analyze_performance_decisions e"
  "analyze_health_decisions (e\<lparr>config := cfg\<rparr>) = analyze_health_decisions e"
  "analyze_security_decisions (e\<lparr>config := cfg\<rparr>) = analyze_security_decisions e"
  "analyze_cost_decisions (e\<lparr>config := cfg\<rparr>) = analyze_cost_decisions e"
  by (simp_all add: fun_eq_iff analyze_performance_decisions_def analyze_health_decisions_def
      analyze_security_decisions_def analyze_cost_decisions_def)

text \<open>
  C2 (as amended). The engine never reads \<^verbatim>\<open>auto_scale\<close> or \<^verbatim>\<open>auto_heal\<close>: the
  decisions of \<^verbatim>\<open>make_decisions\<close>, of the performance (scaling) analyzer and of the
  health (healing) analyzer are the same whatever the configuration dictionary holds.
\<close>

theorem decisions_ignore_config:
  "fst (make_decisions (e\<lparr>config := cfg\<rparr>) state ctx w) = fst (make_decisions e state ctx w)
   \<and> analyze_performance_decisions (e\<lparr>config := cfg\<rparr>) state ctx w
       = analyze_performance_decisions e state ctx w
   \<and> analyze_health_decisions (e\<lparr>config := cfg\<rparr>) state ctx w
       = analyze_health_decisions e state ctx w"
  by (simp add: analyzers_ignore_config make_decisions_result generated_decisions_def)

text \<open>
  With both flags set to false, a hot CPU still yields \<^verbatim>\<open>scale_up\<close> and an unhealthy
  service still yields \<^verbatim>\<open>heal_service\<close>.
\<close>

theorem disabled_flags_counterexample:
  "dict_get disabled_config ''auto_scale'' (PBool True) = PBool False
   \<and> dict_get disabled_config ''auto_heal'' (PBool True) = PBool False
   \<and> map (\<lambda>d. (action_type d, target d))
        (fst (make_decisions (init_engine disabled_config) hot_unhealthy_state
               example_context example_world))
      = [(HEAL_SERVICE, ''api''), (SCALE_UP, ''compute'')]
   \<and> map action_type
        (fst (analyze_performance_decisions (init_engine disabled_config) hot_unhealthy_state
               example_context example_world))
      = [SCALE_UP]
   \<and> map action_type
        (fst (analyze_health_decisions (init_engine disabled_config) hot_unhealthy_state
               example_context example_world))
      = [HEAL_SERVICE]"
  by (simp add: engine_defs example_defs disabled_config_def hot_unhealthy_state_def)

lemma history_split:
  assumes "within_a_day e state ctx w"
  shows "decision_history (fst (snd (make_decisions e state ctx w)))
         = filter (\<lambda>d. fst (now (snd (generated_decisions e state ctx w))) - 24 * hour < timestamp d)
             (decision_history e)
           @ sort_by_priority (fst (generated_decisions e state ctx w))"
proof -
  let ?gen = "fst (generated_decisions e state ctx w)"
  let ?w4 = "snd (generated_decisions e state ctx w)"
  let ?t = "fst (now ?w4)"
  have st: "stamped_by w ?gen ?w4"
    using stamping_generated by (simp add: stamping_def)
  have "?t - 24 * hour < timestamp d" if "d \<in> set (sort_by_priority ?gen)" for d
  proof -
    from that have "d \<in> set ?gen" by (simp add: sort_by_priority_def)
    with st obtain i where i: "reads w \<le> i" "i < reads ?w4" "timestamp d = time_src w i"
      unfolding stamped_by_def by blast
    with assms have "?t - time_src w i < 24 * hour"
      unfolding within_a_day_def by blast
    with i(3) show ?thesis by simp
  qed
  then have "filter (\<lambda>d. ?t - 24 * hour < timestamp d) (sort_by_priority ?gen)
             = sort_by_priority ?gen"
    by (simp add: filter_id_conv)
  then show ?thesis
    by (simp add: make_decisions_def Let_def split_def)
qed

lemma six_unhealthy_report:
  "heal_decision ''search'' (1700000000 * second + 5000)
     \<in> set (decision_history (fst (snd (make_decisions (init_engine []) six_unhealthy_state
                example_context example_world))))
   \<and> heal_decision ''search'' (1700000000 * second + 5000)
     \<notin> set (fst (make_decisions (init_engine []) six_unhealthy_state example_context example_world))
   \<and> report_of (heal_decision ''search'' (1700000000 * second + 5000))
     \<in> set (fst (get_recent_decisions
         (fst (snd (make_decisions (init_engine []) six_unhealthy_state example_context example_world)))
         (snd (snd (make_decisions (init_engine []) six_unhealthy_state example_context example_world)))))
   \<and> report_of (heal_decision ''search'' (1700000000 * second + 5000))
     \<notin> report_of ` set (fst (make_decisions (init_engine []) six_unhealthy_state example_context example_world))"
  by (simp add: engine_defs example_defs get_recent_decisions_def report_of_def)

text \<open>
  C10. When the clock readings of one call lie within a day, the new history is the part
  of the old history that is still recent, then the decisions returned, then the
  decisions the cap of five cut off: every generated decision is in the history. With six
  unhealthy services the sixth heal decision is in the history and in the
  recent-decisions report although it was not returned.
\<close>

theorem history_holds_decisions_cut_by_cap:
  assumes "within_a_day e state ctx w"
  shows "decision_history (fst (snd (make_decisions e state ctx w)))
         = filter (\<lambda>d. fst (now (snd (generated_decisions e state ctx w))) - 24 * hour < timestamp d)
             (decision_history e)
           @ fst (make_decisions e state ctx w)
           @ drop 5 (sort_by_priority (fst (generated_decisions e state ctx w)))
       \<and> length (drop 5 (sort_by_priority (fst (generated_decisions e state ctx w))))
           = length (fst (generated_decisions e state ctx w)) - 5
       \<and> set (fst (generated_decisions e state ctx w))
           \<subseteq> set (decision_history (fst (snd (make_decisions e state ctx w))))
       \<and> (\<exists>e0 state0 ctx0 w0 d.
             5 < length (fst (generated_decisions e0 state0 ctx0 w0))
           \<and> d \<in> set (decision_history (fst (snd (make_decisions e0 state0 ctx0 w0))))
           \<and> d \<notin> set (fst (make_decisions e0 state0 ctx0 w0))
           \<and> report_of d \<in> set (fst (get_recent_decisions
                 (fst (snd (make_decisions e0 state0 ctx0 w0)))
                 (snd (snd (make_decisions e0 state0 ctx0 w0)))))
           \<and> report_of d \<notin> report_of ` set (fst (make_decisions e0 state0 ctx0 w0)))"
proof -
  let ?gen = "fst (generated_decisions e state ctx w)"
  have split: "decision_history (fst (snd (make_decisions e state ctx w)))
         = filter (\<lambda>d. fst (now (snd (generated_decisions e state ctx w))) - 24 * hour < timestamp d)
             (decision_history e)
           @ sort_by_priority ?gen"
    using assms by (rule history_split)
  have parts: "sort_by_priority ?gen
               = fst (make_decisions e state ctx w) @ drop 5 (sort_by_priority ?gen)"
    by (simp add: make_decisions_result)
  have a: "decision_history (fst (snd (make_decisions e state ctx w)))
         = filter (\<lambda>d. fst (now (snd (generated_decisions e state ctx w))) - 24 * hour < timestamp d)
             (decision_history e)
           @ fst (make_decisions e state ctx w)
           @ drop 5 (sort_by_priority ?gen)"
    using split parts by simp
  have b: "length (drop 5 (sort_by_priority ?gen)) = length ?gen - 5"
    by (simp add: sort_by_priority_def)
  have "set ?gen = set (sort_by_priority ?gen)"
    by (simp add: sort_by_priority_def)
  then have c: "set ?gen \<subseteq> set (decision_history (fst (snd (make_decisions e state ctx w))))"
    by (simp add: split)
  have "5 < length (fst (generated_decisions (init_engine []) six_unhealthy_state
                example_context example_world))"
    by (simp add: engine_defs example_defs)
  with six_unhealthy_report have d: "\<exists>e0 state0 ctx0 w0 d.
             5 < length (fst (generated_decisions e0 state0 ctx0 w0))
           \<and> d \<in> set (decision_history (fst (snd (make_decisions e0 state0 ctx0 w0))))
           \<and> d \<notin> set (fst (make_decisions e0 state0 ctx0 w0))
           \<and> report_of d \<in> set (fst (get_recent_decisions
                 (fst (snd (make_decisions e0 state0 ctx0 w0)))
                 (snd (snd (make_decisions e0 state0 ctx0 w0)))))
           \<and> report_of d \<notin> report_of ` set (fst (make_decisions e0 state0 ctx0 w0))"
    by blast
  from a b c d show ?thesis by blast
qed

theorem history_holds_decisions_cut_by_cap_witness:
  "within_a_day (init_engine []) six_unhealthy_state example_context example_world
   \<and> map target (fst (make_decisions (init_engine []) six_unhealthy_state
                       example_context example_world))
      = [''web'', ''api'', ''database'', ''cache'', ''queue'']
   \<and> map target (decision_history (fst (snd (make_decisions (init_engine []) six_unhealthy_state
                       example_context example_world))))
      = [''web'', ''api'', ''database'', ''cache'', ''queue'', ''search'']
   \<and> set (fst (generated_decisions (init_engine []) six_unhealthy_state
                       example_context example_world))
      \<subseteq> set (decision_history (fst (snd (make_decisions (init_engine []) six_unhealthy_state
                       example_context example_world))))"
proof -
  have h: "within_a_day (init_engine []) six_unhealthy_state example_context example_world"
    by (simp add: within_a_day_def engine_defs example_defs)
  have "map target (fst (make_decisions (init_engine []) six_unhealthy_state
                       example_context example_world))
      = [''web'', ''api'', ''database'', ''cache'', ''queue'']"
    by (simp add: engine_defs example_defs)
  moreover have "map target (decision_history (fst (snd (make_decisions (init_engine [])
                       six_unhealthy_state example_context example_world))))
      = [''web'', ''api'', ''database'', ''cache'', ''queue'', ''search'']"
    by (simp add: engine_defs example_defs)
  ultimately show ?thesis
    using history_holds_decisions_cut_by_cap [OF h] h by blast
qed

section \<open>Properties of the learning module\<close>

lemma last_n_short: "length xs \<le> n \<Longrightarrow> last_n n xs = xs"
  by (simp add: last_n_def)

lemma length_last_n: "length (last_n n xs) \<le> n"
  by (simp add: last_n_def)

lemma last_n_append: "last_n n (last_n n xs @ ys) = last_n n (xs @ ys)"
  by (cases "length xs \<le> n") (auto simp: last_n_def add.commute)

lemma learn_step:
  "samples (learn_optimal_thresholds lt outcome) k
   = (if feeds k outcome
      then last_n 50 (samples lt k @ [cpu_usage (system_state_before outcome)])
      else samples lt k)"
  by (auto simp: learn_optimal_thresholds_def feeds_def samples_def Let_def last_n_short
      split: option.splits)

lemma learn_all_samples:
  "length (samples lt k) \<le> 50 \<Longrightarrow>
   samples (learn_all lt outcomes) k
   = last_n 50 (samples lt k
       @ map (\<lambda>outcome. cpu_usage (system_state_before outcome)) (filter (feeds k) outcomes))"
proof (induction outcomes arbitrary: lt)
  case Nil
  then show ?case by (simp add: learn_all_def last_n_short)
next
  case (Cons outcome outcomes)
  have "length (samples (learn_optimal_thresholds lt outcome) k) \<le> 50"
    using Cons.prems by (simp add: learn_step length_last_n)
  then have "samples (learn_all (learn_optimal_thresholds lt outcome) outcomes) k
     = last_n 50 (samples (learn_optimal_thresholds lt outcome) k
         @ map (\<lambda>outcome. cpu_usage (system_state_before outcome)) (filter (feeds k) outcomes))"
    by (rule Cons.IH)
  then show ?case
    by (simp add: learn_all_def learn_step last_n_append)
qed

text \<open>
  C7. An outcome whose effectiveness is at most 0.5 leaves the samples of every learned
  threshold buffer as they were; whenever the samples of a buffer change, the
  effectiveness was above 0.5 and the new samples are the last 50 of the old ones followed
  by the CPU value of the state before the action. Starting from no thresholds, after any
  sequence of outcomes a buffer holds the last 50 (at most) of the CPU values of the
  outcomes that fed it, so never more than 50 entries.
\<close>

theorem thresholds_learned_only_when_effective:
  "(overall_effectiveness outcome \<le> 0.5 \<longrightarrow>
      samples (learn_optimal_thresholds lt outcome) k = samples lt k)
   \<and> (samples (learn_optimal_thresholds lt outcome) k \<noteq> samples lt k \<longrightarrow>
        overall_effectiveness outcome > 0.5
        \<and> samples (learn_optimal_thresholds lt outcome) k
           = last_n 50 (samples lt k @ [cpu_usage (system_state_before outcome)]))
   \<and> length (samples (learn_all Map.empty outcomes) k) \<le> 50
   \<and> samples (learn_all Map.empty outcomes) k
       = last_n 50 (map (\<lambda>outcome. cpu_usage (system_state_before outcome))
                     (filter (feeds k) outcomes))"
proof -
  have a: "overall_effectiveness outcome \<le> 0.5 \<longrightarrow>
      samples (learn_optimal_thresholds lt outcome) k = samples lt k"
    by (simp add: learn_step feeds_def Let_def)
  have b: "samples (learn_optimal_thresholds lt outcome) k \<noteq> samples lt k \<longrightarrow>
        overall_effectiveness outcome > 0.5
        \<and> samples (learn_optimal_thresholds lt outcome) k
           = last_n 50 (samples lt k @ [cpu_usage (system_state_before outcome)])"
    by (simp add: learn_step feeds_def Let_def)
  have "length (samples Map.empty k) \<le> 50" by (simp add: samples_def)
  then have d: "samples (learn_all Map.empty outcomes) k
       = last_n 50 (samples Map.empty k @ map (\<lambda>outcome. cpu_usage (system_state_before outcome))
                     (filter (feeds k) outcomes))"
    by (rule learn_all_samples)
  then have d': "samples (learn_all Map.empty outcomes) k
       = last_n 50 (map (\<lambda>outcome. cpu_usage (system_state_before outcome))
                     (filter (feeds k) outcomes))"
    by (simp add: samples_def)
  have c: "length (samples (learn_all Map.empty outcomes) k) \<le> 50"
    unfolding d' by (rule length_last_n)
  from a b c d' show ?thesis by blast
qed

lemmas learning_defs = learn_all_def learn_optimal_thresholds_def samples_def last_n_def
  overall_effectiveness_def metric_get_def feeds_def Let_def

theorem thresholds_learned_only_when_effective_witness:
  "overall_effectiveness (scale_up_outcome 82 0.3) \<le> 0.5
   \<and> samples (learn_optimal_thresholds [''scale_up_cpu_threshold'' \<mapsto> [81]] (scale_up_outcome 82 0.3))
        ''scale_up_cpu_threshold'' = [81]
   \<and> samples (learn_optimal_thresholds [''scale_up_cpu_threshold'' \<mapsto> [81]] (scale_up_outcome 83 0.8))
        ''scale_up_cpu_threshold'' = [81, 83]
   \<and> samples (learn_all Map.empty ten_outcomes) ''scale_up_cpu_threshold'' = [81, 83, 85, 87, 89]"
proof -
  have h: "overall_effectiveness (scale_up_outcome 82 0.3) \<le> 0.5"
    by (simp add: overall_effectiveness_def metric_get_def scale_up_outcome_def)
  have s: "samples [''scale_up_cpu_threshold'' \<mapsto> [81]] ''scale_up_cpu_threshold'' = [81]"
    by (simp add: samples_def)
  have e: "samples (learn_optimal_thresholds [''scale_up_cpu_threshold'' \<mapsto> [81]]
             (scale_up_outcome 83 0.8)) ''scale_up_cpu_threshold'' = [81, 83]"
    by (simp add: learning_defs scale_up_outcome_def quiet_state_def)
  have t: "map (\<lambda>outcome. cpu_usage (system_state_before outcome))
             (filter (feeds ''scale_up_cpu_threshold'') ten_outcomes) = [81, 83, 85, 87, 89]"
    by (simp add: ten_outcomes_def scale_up_outcome_def feeds_def overall_effectiveness_def
        metric_get_def quiet_state_def)
  from thresholds_learned_only_when_effective
         [of "scale_up_outcome 82 0.3" "[''scale_up_cpu_threshold'' \<mapsto> [81]]"
             "''scale_up_cpu_threshold''" ten_outcomes]
  show ?thesis using h s e t by (simp add: last_n_def)
qed


section \<open>Properties of the monitoring system and of the status report\<close>

lemma check_alerts_pass_alerts:
  "current_alerts (fst (check_alerts_pass fmt smp r m w))
   = filter (\<lambda>a. pass_cutoff fmt smp r m w < alert_timestamp a)
       (current_alerts m
        @ fst (raise_alerts fmt (fst (get_system_state m smp w)) r (snd (get_system_state m smp w))))"
  by (simp add: check_alerts_pass_def pass_cutoff_def Let_def split_def)

text \<open>
  C9. After one alert-check pass no alert is left whose timestamp is an hour or more before
  the clock reading of that pass, and every alert of the list that is younger than one
  hour at that reading is still there.
\<close>

theorem old_alerts_pruned_young_kept:
  "(alert_timestamp a \<le> pass_cutoff fmt smp r m w \<longrightarrow>
      a \<notin> set (current_alerts (fst (check_alerts_pass fmt smp r m w))))
   \<and> (a \<in> set (current_alerts m) \<and> pass_cutoff fmt smp r m w < alert_timestamp a \<longrightarrow>
        a \<in> set (current_alerts (fst (check_alerts_pass fmt smp r m w))))"
  by (auto simp: check_alerts_pass_alerts)

lemmas monitoring_defs = check_alerts_pass_def pass_cutoff_def get_system_state_def
  raise_alerts_def new_alert_def init_monitoring_def then_do_def emit_def skip_def with_now_def
  now_def hour_def second_def Let_def dict_get_def

theorem old_alerts_pruned_young_kept_witness:
  "alert_timestamp (example_alert ''old'' (1700000000 * second - 2 * hour))
     \<le> pass_cutoff (\<lambda>x. ''?'') quiet_sample no_rolls example_monitoring example_world
   \<and> example_alert ''young'' (1700000000 * second - 600 * second)
       \<in> set (current_alerts example_monitoring)
   \<and> pass_cutoff (\<lambda>x. ''?'') quiet_sample no_rolls example_monitoring example_world
       < alert_timestamp (example_alert ''young'' (1700000000 * second - 600 * second))
   \<and> current_alerts (fst (check_alerts_pass (\<lambda>x. ''?'') quiet_sample no_rolls
         example_monitoring example_world))
      = [example_alert ''young'' (1700000000 * second - 600 * second)]"
proof -
  have h1: "alert_timestamp (example_alert ''old'' (1700000000 * second - 2 * hour))
     \<le> pass_cutoff (\<lambda>x. ''?'') quiet_sample no_rolls example_monitoring example_world"
    by (simp add: monitoring_defs example_alert_def example_monitoring_def quiet_sample_def
        no_rolls_def example_world_def)
  have h2: "example_alert ''young'' (1700000000 * second - 600 * second)
       \<in> set (current_alerts example_monitoring)"
    by (simp add: example_monitoring_def init_monitoring_def)
  have h3: "pass_cutoff (\<lambda>x. ''?'') quiet_sample no_rolls example_monitoring example_world
       < alert_timestamp (example_alert ''young'' (1700000000 * second - 600 * second))"
    by (simp add: monitoring_defs example_alert_def example_monitoring_def quiet_sample_def
        no_rolls_def example_world_def)
  have h4: "current_alerts (fst (check_alerts_pass (\<lambda>x. ''?'') quiet_sample no_rolls
         example_monitoring example_world))
      = [example_alert ''young'' (1700000000 * second - 600 * second)]"
    by (simp add: monitoring_defs example_alert_def example_monitoring_def quiet_sample_def
        no_rolls_def example_world_def)
  from old_alerts_pruned_young_kept
         [of "example_alert ''old'' (1700000000 * second - 2 * hour)" "\<lambda>x. ''?''" quiet_sample
             no_rolls example_monitoring example_world]
       h1 h2 h3 h4
  show ?thesis by blast
qed

lemma same_verdicts_Nil: "same_verdicts [] w w'"
  by (simp add: same_verdicts_def)

lemma same_verdicts_Cons:
  "same_verdicts (d # ds) w w'
   = (((time_src w (reads w) - hour < timestamp d) = (time_src w' (reads w') - hour < timestamp d))
      \<and> same_verdicts ds (w\<lparr>reads := Suc (reads w)\<rparr>) (w'\<lparr>reads := Suc (reads w')\<rparr>))"
proof -
  have "(\<forall>i<Suc n. P i) = (P 0 \<and> (\<forall>i<n. P (Suc i)))" for n and P :: "nat \<Rightarrow> bool"
    by (metis less_Suc_eq_0_disj Suc_less_eq zero_less_Suc)
  then show ?thesis
    by (simp add: same_verdicts_def)
qed

lemma recent_decisions_same:
  "same_verdicts ds w w' \<Longrightarrow> fst (recent_decisions ds w) = fst (recent_decisions ds w')"
proof (induction ds arbitrary: w w')
  case Nil
  show ?case by (simp add: skip_def)
next
  case (Cons d ds)
  from Cons.prems have head:
    "(time_src w (reads w) - hour < timestamp d) = (time_src w' (reads w') - hour < timestamp d)"
    and tail: "same_verdicts ds (w\<lparr>reads := Suc (reads w)\<rparr>) (w'\<lparr>reads := Suc (reads w')\<rparr>)"
    by (simp_all add: same_verdicts_Cons)
  from tail have "fst (recent_decisions ds (w\<lparr>reads := Suc (reads w)\<rparr>))
                  = fst (recent_decisions ds (w'\<lparr>reads := Suc (reads w')\<rparr>))"
    by (rule Cons.IH)
  with head show ?case
    by (simp add: then_do_def with_now_def now_def split_def Let_def)
qed

lemma monitoring_get_status_eq:
  "fst (monitoring_get_status m w)
   = \<lparr>status_is_monitoring = is_monitoring m, metrics_collected = length (metrics_history m),
      active_alerts = length (current_alerts m),
      status_monitoring_interval = monitoring_interval m,
      last_collection = time_src w (reads w)\<rparr>"
  "snd (monitoring_get_status m w) = w\<lparr>reads := Suc (reads w)\<rparr>"
  by (simp_all add: monitoring_get_status_def with_now_def now_def)

lemma infrastructure_get_status_eq:
  "fst (infrastructure_get_status im w)
   = \<lparr>status_cloud_provider = cloud_provider im, total_resources = length (resources im),
      resources_by_type = foldl add_resource_entry [] (resources im),
      last_updated = time_src w (reads w)\<rparr>"
  "snd (infrastructure_get_status im w) = w\<lparr>reads := Suc (reads w)\<rparr>"
  by (simp_all add: infrastructure_get_status_def with_now_def now_def)

lemma agent_get_status_eq:
  "fst (agent_get_status a w)
   = \<lparr>status_is_running = is_running a, status_project_context = agent_project_context a,
      monitoring_status = fst (monitoring_get_status (monitoring_system a) w),
      infrastructure_status =
        fst (infrastructure_get_status (infra_manager a) (w\<lparr>reads := Suc (reads w)\<rparr>)),
      last_decisions = map report_of
        (fst (recent_decisions (decision_history (decision_engine a))
                (w\<lparr>reads := Suc (Suc (reads w))\<rparr>)))\<rparr>"
  by (simp add: agent_get_status_def Let_def split_def monitoring_get_status_eq
      infrastructure_get_status_eq get_recent_decisions_def)

text \<open>
  C8 (as amended). Two calls of a status accessor on the same, unchanged objects return
  results that are equal except for the fields that hold the time of the call
  (\<^verbatim>\<open>last_collection\<close> of the monitoring status, \<^verbatim>\<open>last_updated\<close> of the
  infrastructure status), provided that no decision of the history crosses the one-hour age
  between the two calls: each decision is reported as recent by both calls or by neither.
  The worlds \<open>w\<close> and \<open>w'\<close> are those of the two calls; the recent decisions are
  selected after the two clock readings of the monitoring and infrastructure statuses.
\<close>

theorem status_equal_up_to_call_time:
  assumes "same_verdicts (decision_history (decision_engine a))
             (w\<lparr>reads := Suc (Suc (reads w))\<rparr>) (w'\<lparr>reads := Suc (Suc (reads w'))\<rparr>)"
  shows "fst (monitoring_get_status m w)
         = (fst (monitoring_get_status m w'))\<lparr>last_collection := time_src w (reads w)\<rparr>
       \<and> fst (agent_get_status a w)
         = (fst (agent_get_status a w'))
             \<lparr>monitoring_status := (monitoring_status (fst (agent_get_status a w')))
                \<lparr>last_collection := time_src w (reads w)\<rparr>,
              infrastructure_status := (infrastructure_status (fst (agent_get_status a w')))
                \<lparr>last_updated := time_src w (Suc (reads w))\<rparr>\<rparr>"
  by (simp add: agent_get_status_eq recent_decisions_same [OF assms]
      monitoring_get_status_eq infrastructure_get_status_eq)

lemmas status_defs = agent_get_status_def monitoring_get_status_def infrastructure_get_status_def
  get_recent_decisions_def with_now_def now_def skip_def Let_def

lemma example_agent_history:
  "map target (decision_history (decision_engine example_agent)) = [''api'']
   \<and> map timestamp (decision_history (decision_engine example_agent)) = [1700000000000000]"
  by (simp add: example_agent_def engine_defs example_defs)

lemma later_world_clock:
  "reads later_world = 3 \<and> time_src later_world = (\<lambda>n. 1700000000 * second + int n * 1000)"
  by (simp add: later_world_def engine_defs example_defs)

lemma length_agent_history: "length (decision_history (decision_engine example_agent)) = 1"
  using example_agent_history by (metis length_map list.size(3,4) One_nat_def add_0)

lemma second_call_world:
  "reads (snd (agent_get_status example_agent later_world)) = 6
   \<and> time_src (snd (agent_get_status example_agent later_world))
      = (\<lambda>n. 1700000000 * second + int n * 1000)"
proof -
  obtain d where d: "decision_history (decision_engine example_agent) = [d]"
    using length_agent_history by (metis length_0_conv length_Suc_conv One_nat_def)
  show ?thesis
    by (simp add: agent_get_status_def monitoring_get_status_def infrastructure_get_status_def
        get_recent_decisions_def d then_do_def with_now_def now_def skip_def split_def
        later_world_clock)
qed

lemma agent_get_status_world:
  "reads (snd (agent_get_status a w)) = reads w + 2 + length (decision_history (decision_engine a))"
  "time_src (snd (agent_get_status a w)) = time_src w"
proof -
  have "reads (snd (recent_decisions ds v)) = reads v + length ds
        \<and> time_src (snd (recent_decisions ds v)) = time_src v" for ds v
    by (induction ds arbitrary: v) (simp_all add: skip_def then_do_def with_now_def now_def split_def Let_def)
  then show "reads (snd (agent_get_status a w))
               = reads w + 2 + length (decision_history (decision_engine a))"
    "time_src (snd (agent_get_status a w)) = time_src w"
    by (simp_all add: agent_get_status_def Let_def split_def monitoring_get_status_eq
        infrastructure_get_status_eq get_recent_decisions_def)
qed

lemma mixed_agent_history:
  "decision_history (decision_engine mixed_agent)
   = [heal_decision ''web'' (1700000000 * second - 2 * hour),
      heal_decision ''api'' (1700000000 * second)]"
  by (simp add: mixed_agent_def init_engine_def)

lemma aging_agent_history:
  "decision_history (decision_engine aging_agent) = [heal_decision ''api'' (1700000000 * second)]"
  by (simp add: aging_agent_def init_engine_def)

theorem status_equal_up_to_call_time_witness:
  "same_verdicts (decision_history (decision_engine mixed_agent))
     (example_world\<lparr>reads := Suc (Suc (reads example_world))\<rparr>)
     ((snd (agent_get_status mixed_agent example_world))
        \<lparr>reads := Suc (Suc (reads (snd (agent_get_status mixed_agent example_world))))\<rparr>)
   \<and> fst (agent_get_status mixed_agent example_world)
      = (fst (agent_get_status mixed_agent (snd (agent_get_status mixed_agent example_world))))
          \<lparr>monitoring_status := (monitoring_status (fst (agent_get_status mixed_agent
                 (snd (agent_get_status mixed_agent example_world)))))
             \<lparr>last_collection := time_src example_world (reads example_world)\<rparr>,
           infrastructure_status := (infrastructure_status (fst (agent_get_status mixed_agent
                 (snd (agent_get_status mixed_agent example_world)))))
             \<lparr>last_updated := time_src example_world (Suc (reads example_world))\<rparr>\<rparr>
   \<and> map report_target (last_decisions (fst (agent_get_status mixed_agent example_world)))
      = [''api'']"
proof -
  have h: "same_verdicts (decision_history (decision_engine mixed_agent))
     (example_world\<lparr>reads := Suc (Suc (reads example_world))\<rparr>)
     ((snd (agent_get_status mixed_agent example_world))
        \<lparr>reads := Suc (Suc (reads (snd (agent_get_status mixed_agent example_world))))\<rparr>)"
    by (simp add: mixed_agent_history same_verdicts_Cons same_verdicts_Nil agent_get_status_world
        heal_decision_def example_world_def hour_def second_def)
  have r: "map report_target (last_decisions (fst (agent_get_status mixed_agent example_world)))
      = [''api'']"
    by (simp add: agent_get_status_eq mixed_agent_history then_do_def with_now_def now_def
        skip_def split_def Let_def heal_decision_def report_of_def example_world_def hour_def second_def)
  from status_equal_up_to_call_time [OF h] h r show ?thesis by blast
qed

lemma agent_status_last_collection:
  "last_collection (monitoring_status (fst (agent_get_status a w))) = time_src w (reads w)"
  by (simp add: agent_get_status_def Let_def split_def monitoring_get_status_eq)

text \<open>
  Called twice in a row with nothing in between, the accessors return different results:
  the clock has moved. And when a decision turns one hour old between the two calls, the
  results differ in \<^verbatim>\<open>last_decisions\<close> too, not only in the time of the call.
\<close>

theorem status_twice_counterexample:
  "fst (monitoring_get_status example_monitoring later_world)
     \<noteq> fst (monitoring_get_status example_monitoring
              (snd (monitoring_get_status example_monitoring later_world)))
   \<and> fst (agent_get_status example_agent later_world)
     \<noteq> fst (agent_get_status example_agent (snd (agent_get_status example_agent later_world)))
   \<and> map report_target (last_decisions (fst (agent_get_status aging_agent slow_world))) = [''api'']
   \<and> last_decisions (fst (agent_get_status aging_agent
         (snd (agent_get_status aging_agent slow_world)))) = []
   \<and> \<not> same_verdicts (decision_history (decision_engine aging_agent))
         (slow_world\<lparr>reads := Suc (Suc (reads slow_world))\<rparr>)
         ((snd (agent_get_status aging_agent slow_world))
            \<lparr>reads := Suc (Suc (reads (snd (agent_get_status aging_agent slow_world))))\<rparr>)
   \<and> fst (agent_get_status aging_agent slow_world)
      \<noteq> (fst (agent_get_status aging_agent (snd (agent_get_status aging_agent slow_world))))
          \<lparr>monitoring_status := (monitoring_status (fst (agent_get_status aging_agent
                 (snd (agent_get_status aging_agent slow_world)))))
             \<lparr>last_collection := time_src slow_world (reads slow_world)\<rparr>,
           infrastructure_status := (infrastructure_status (fst (agent_get_status aging_agent
                 (snd (agent_get_status aging_agent slow_world)))))
             \<lparr>last_updated := time_src slow_world (Suc (reads slow_world))\<rparr>\<rparr>"
proof -
  let ?first = "fst (agent_get_status aging_agent slow_world)"
  let ?second = "fst (agent_get_status aging_agent (snd (agent_get_status aging_agent slow_world)))"
  let ?masked = "?second
          \<lparr>monitoring_status := (monitoring_status ?second)
             \<lparr>last_collection := time_src slow_world (reads slow_world)\<rparr>,
           infrastructure_status := (infrastructure_status ?second)
             \<lparr>last_updated := time_src slow_world (Suc (reads slow_world))\<rparr>\<rparr>"
  have 1: "last_collection (fst (monitoring_get_status example_monitoring later_world))
        \<noteq> last_collection (fst (monitoring_get_status example_monitoring
              (snd (monitoring_get_status example_monitoring later_world))))"
    by (simp add: monitoring_get_status_eq later_world_clock)
  have 2: "last_collection (monitoring_status (fst (agent_get_status example_agent later_world)))
        \<noteq> last_collection (monitoring_status (fst (agent_get_status example_agent
              (snd (agent_get_status example_agent later_world)))))"
    by (simp add: agent_status_last_collection later_world_clock second_call_world)
  have 3: "map report_target (last_decisions (fst (agent_get_status aging_agent slow_world)))
           = [''api'']"
    by (simp add: agent_get_status_eq aging_agent_history then_do_def with_now_def now_def
        skip_def split_def Let_def heal_decision_def report_of_def slow_world_def hour_def second_def)
  have sw: "reads slow_world = 0"
    "time_src slow_world = (\<lambda>n. 1700000000 * second + int n * (1200 * second))"
    by (simp_all add: slow_world_def)
  have w2: "reads (snd (agent_get_status aging_agent slow_world)) = 3"
    "time_src (snd (agent_get_status aging_agent slow_world))
       = (\<lambda>n. 1700000000 * second + int n * (1200 * second))"
    by (simp_all add: agent_get_status_world aging_agent_history slow_world_def)
  have 4: "last_decisions (fst (agent_get_status aging_agent
         (snd (agent_get_status aging_agent slow_world)))) = []"
    by (simp add: agent_get_status_eq aging_agent_history then_do_def with_now_def now_def
        skip_def split_def Let_def heal_decision_def w2 hour_def second_def)
  from 1 2 have "fst (monitoring_get_status example_monitoring later_world)
     \<noteq> fst (monitoring_get_status example_monitoring
              (snd (monitoring_get_status example_monitoring later_world)))"
    "fst (agent_get_status example_agent later_world)
     \<noteq> fst (agent_get_status example_agent (snd (agent_get_status example_agent later_world)))"
    by metis+
  note differ = this
  have 5: "\<not> same_verdicts (decision_history (decision_engine aging_agent))
         (slow_world\<lparr>reads := Suc (Suc (reads slow_world))\<rparr>)
         ((snd (agent_get_status aging_agent slow_world))
            \<lparr>reads := Suc (Suc (reads (snd (agent_get_status aging_agent slow_world))))\<rparr>)"
    by (simp add: aging_agent_history same_verdicts_Cons same_verdicts_Nil w2 sw heal_decision_def
        hour_def second_def)
  have "last_decisions ?first \<noteq> last_decisions ?masked"
    using 3 4 by auto
  then have 6: "?first \<noteq> ?masked"
    by (rule contrapos_nn) (rule arg_cong)
  from differ 3 4 5 6 show ?thesis
    by (intro conjI)
qed

section \<open>Properties of the action executor\<close>

lemma run_command_world:
  "snd (run_command cmd w) = w\<lparr>cmd_log := cmd_log w @ [cmd], slept := slept w + 1\<rparr>"
  "fst (fst (run_command cmd w)) = cmd_success w (length (cmd_log w))"
  by (simp_all add: run_command_def sleep_def Let_def)

lemma heal_attempts_all_fail:
  "\<forall>k<n. \<not> cmd_success w (length (cmd_log w) + k) \<Longrightarrow>
   heal_attempts tgt (PStr ''restart'') n a w
   = (None, w\<lparr>cmd_log := cmd_log w @ replicate n (restart_command tgt),
               slept := slept w + 6 * n\<rparr>)"
proof (induction n arbitrary: a w)
  case 0
  then show ?case by simp
next
  case (Suc n)
  let ?cmd = "restart_command tgt"
  let ?w = "sleep 5 (snd (run_command ?cmd w))"
  from Suc.prems have first: "\<not> cmd_success w (length (cmd_log w))"
    by (metis add.right_neutral zero_less_Suc)
  have w': "?w = w\<lparr>cmd_log := cmd_log w @ [?cmd], slept := slept w + 6\<rparr>"
    by (simp add: run_command_world sleep_def)
  have "\<forall>k<n. \<not> cmd_success ?w (length (cmd_log ?w) + k)"
  proof (intro allI impI)
    fix k assume "k < n"
    then have "\<not> cmd_success w (length (cmd_log w) + Suc k)"
      using Suc.prems by (meson Suc_less_eq)
    then show "\<not> cmd_success ?w (length (cmd_log ?w) + k)"
      by (simp add: w')
  qed
  then have "heal_attempts tgt (PStr ''restart'') n (Suc a) ?w
     = (None, ?w\<lparr>cmd_log := cmd_log ?w @ replicate n ?cmd, slept := slept ?w + 6 * n\<rparr>)"
    by (rule Suc.IH)
  with first show ?case
    by (simp add: split_def Let_def run_command_world(2) w' replicate_app_Cons_same)
qed

lemma heal_attempts_first_success:
  "cmd_success w (length (cmd_log w) + k) \<Longrightarrow>
   \<forall>j<k. \<not> cmd_success w (length (cmd_log w) + j) \<Longrightarrow> k < n \<Longrightarrow>
   heal_attempts tgt (PStr ''restart'') n a w
   = (Some (a + k), w\<lparr>cmd_log := cmd_log w @ replicate (Suc k) (restart_command tgt),
                      slept := slept w + 6 * k + 1\<rparr>)"
proof (induction k arbitrary: n a w)
  case 0
  then obtain m where "n = Suc m" by (cases n) auto
  with 0 show ?case
    by (simp add: split_def Let_def run_command_world)
next
  case (Suc k)
  let ?cmd = "restart_command tgt"
  let ?w = "sleep 5 (snd (run_command ?cmd w))"
  from Suc.prems obtain m where n: "n = Suc m" and km: "k < m" by (cases n) auto
  from Suc.prems have first: "\<not> cmd_success w (length (cmd_log w))"
    by (metis add.right_neutral zero_less_Suc)
  have w': "?w = w\<lparr>cmd_log := cmd_log w @ [?cmd], slept := slept w + 6\<rparr>"
    by (simp add: run_command_world sleep_def)
  have 1: "cmd_success ?w (length (cmd_log ?w) + k)"
    using Suc.prems(1) by (simp add: w')
  have 2: "\<forall>j<k. \<not> cmd_success ?w (length (cmd_log ?w) + j)"
  proof (intro allI impI)
    fix j assume "j < k"
    then have "\<not> cmd_success w (length (cmd_log w) + Suc j)"
      using Suc.prems(2) by (meson Suc_less_eq)
    then show "\<not> cmd_success ?w (length (cmd_log ?w) + j)" by (simp add: w')
  qed
  have "heal_attempts tgt (PStr ''restart'') m (Suc a) ?w
     = (Some (Suc a + k), ?w\<lparr>cmd_log := cmd_log ?w @ replicate (Suc k) ?cmd,
                             slept := slept ?w + 6 * k + 1\<rparr>)"
    using 1 2 km by (rule Suc.IH)
  with first show ?case
    by (simp add: n split_def Let_def run_command_world(2) w' replicate_app_Cons_same)
qed

lemma heal_attempts_bound:
  "length (cmd_log (snd (heal_attempts tgt action n a w))) \<le> length (cmd_log w) + n"
proof (induction n arbitrary: a w)
  case 0
  then show ?case by simp
next
  case (Suc n)
  have 1: "length (cmd_log (snd (heal_attempts tgt action n (Suc a) (sleep 5 w))))
           \<le> length (cmd_log w) + n"
    using Suc.IH [of "Suc a" "sleep 5 w"] by (simp add: sleep_def)
  have 2: "length (cmd_log (snd (heal_attempts tgt action n (Suc a)
              (sleep 5 (snd (run_command (restart_command tgt) w))))))
           \<le> length (cmd_log w) + Suc n"
    using Suc.IH [of "Suc a" "sleep 5 (snd (run_command (restart_command tgt) w))"]
    by (simp add: sleep_def run_command_world)
  show ?case
  proof (cases "action = PStr ''restart''")
    case True
    with 2 show ?thesis
      by (auto simp: split_def Let_def run_command_world)
  next
    case False
    with 1 show ?thesis by simp
  qed
qed

lemma make_result_eq:
  "fst (make_result ok msg det w)
   = \<lparr>success = ok, result_message = msg, details = det, execution_time = 0,
      result_timestamp = time_src w (reads w)\<rparr>"
  "snd (make_result ok msg det w) = w\<lparr>reads := Suc (reads w)\<rparr>"
  by (simp_all add: make_result_def with_now_def now_def)

lemma heal_all_fail:
  assumes "dict_get (parameters d) ''action'' (PStr ''restart'') = PStr ''restart''"
      and "py_range (dict_get (parameters d) ''max_attempts'' (PInt 3)) = Inr n"
      and "\<forall>k<n. \<not> cmd_success w (length (cmd_log w) + k)"
  shows "\<exists>r. fst (execute_heal_service fmt d w) = Inr r \<and> \<not> success r
           \<and> map_of (details r) ''attempts''
              = Some (dict_get (parameters d) ''max_attempts'' (PInt 3))"
    and "cmd_log (snd (execute_heal_service fmt d w))
           = cmd_log w @ replicate n (restart_command (target d))"
    and "slept (snd (execute_heal_service fmt d w)) = slept w + 6 * n"
  using assms(1,2) heal_attempts_all_fail [OF assms(3), of "target d" 0]
  by (simp_all add: execute_heal_service_def Let_def split_def make_result_eq)

lemma heal_first_success:
  assumes "dict_get (parameters d) ''action'' (PStr ''restart'') = PStr ''restart''"
      and "py_range (dict_get (parameters d) ''max_attempts'' (PInt 3)) = Inr n"
      and "cmd_success w (length (cmd_log w) + k)"
      and "\<forall>j<k. \<not> cmd_success w (length (cmd_log w) + j)"
      and "k < n"
  shows "\<exists>r. fst (execute_heal_service fmt d w) = Inr r \<and> success r
           \<and> map_of (details r) ''attempts'' = Some (PInt (int k + 1))"
    and "cmd_log (snd (execute_heal_service fmt d w))
           = cmd_log w @ replicate (Suc k) (restart_command (target d))"
    and "slept (snd (execute_heal_service fmt d w)) = slept w + 6 * k + 1"
  using assms(1,2) heal_attempts_first_success [OF assms(3,4,5), of "target d" 0]
  by (simp_all add: execute_heal_service_def Let_def split_def make_result_eq)

text \<open>
  C5. When the action is \<^verbatim>\<open>restart\<close> (the default) and \<^verbatim>\<open>max_attempts\<close> (default 3)
  gives \<open>n\<close> iterations, the heal handler returns a result, runs the restart command at most
  \<open>n\<close> times, and succeeds exactly when one of the first \<open>n\<close> commands does. If they all
  fail it has run the command \<open>n\<close> times, each followed by the delay of 5 seconds; if the
  first success is attempt \<open>k + 1\<close> it has run the command \<open>k + 1\<close> times, with \<open>k\<close>
  delays, and returns at once reporting \<open>k + 1\<close> attempts.
\<close>

theorem heal_service_retries:
  assumes restart: "dict_get (parameters d) ''action'' (PStr ''restart'') = PStr ''restart''"
      and range: "py_range (dict_get (parameters d) ''max_attempts'' (PInt 3)) = Inr n"
  shows "\<exists>r. fst (execute_heal_service fmt d w) = Inr r
     \<and> length (cmd_log (snd (execute_heal_service fmt d w))) \<le> length (cmd_log w) + n
     \<and> (success r \<longleftrightarrow> (\<exists>k<n. cmd_success w (length (cmd_log w) + k)))
     \<and> ((\<forall>k<n. \<not> cmd_success w (length (cmd_log w) + k)) \<longrightarrow>
           cmd_log (snd (execute_heal_service fmt d w))
             = cmd_log w @ replicate n (restart_command (target d))
         \<and> slept (snd (execute_heal_service fmt d w)) = slept w + 6 * n)
     \<and> (\<forall>k<n. cmd_success w (length (cmd_log w) + k)
               \<and> (\<forall>j<k. \<not> cmd_success w (length (cmd_log w) + j)) \<longrightarrow>
           cmd_log (snd (execute_heal_service fmt d w))
             = cmd_log w @ replicate (Suc k) (restart_command (target d))
         \<and> slept (snd (execute_heal_service fmt d w)) = slept w + 6 * k + 1
         \<and> map_of (details r) ''attempts'' = Some (PInt (int k + 1)))"
proof (cases "\<exists>k<n. cmd_success w (length (cmd_log w) + k)")
  case False
  then have fails: "\<forall>k<n. \<not> cmd_success w (length (cmd_log w) + k)" by blast
  from heal_all_fail(1) [OF restart range fails, of fmt]
  obtain r where r: "fst (execute_heal_service fmt d w) = Inr r" "\<not> success r" by blast
  have "length (cmd_log (snd (execute_heal_service fmt d w))) \<le> length (cmd_log w) + n"
    by (simp add: heal_all_fail(2) [OF restart range fails])
  with r False fails heal_all_fail(2,3) [OF restart range fails, of fmt]
  show ?thesis by blast
next
  case True
  then obtain k where k: "k < n" "cmd_success w (length (cmd_log w) + k)"
      "\<forall>j<k. \<not> cmd_success w (length (cmd_log w) + j)"
    using exists_least_iff [of "\<lambda>k. k < n \<and> cmd_success w (length (cmd_log w) + k)"]
    by (metis (no_types, lifting) less_trans)
  from heal_first_success(1) [OF restart range k(2,3,1), of fmt]
  obtain r where r: "fst (execute_heal_service fmt d w) = Inr r" "success r"
      "map_of (details r) ''attempts'' = Some (PInt (int k + 1))" by blast
  note w' = heal_first_success(2,3) [OF restart range k(2,3,1), of fmt]
  have bound: "length (cmd_log (snd (execute_heal_service fmt d w))) \<le> length (cmd_log w) + n"
    using k(1) by (simp add: w')
  have uniq: "k' = k" if "k' < n" "cmd_success w (length (cmd_log w) + k')"
      "\<forall>j<k'. \<not> cmd_success w (length (cmd_log w) + j)" for k'
    using that k by (meson linorder_neqE_nat)
  have "\<forall>k'<n. cmd_success w (length (cmd_log w) + k')
               \<and> (\<forall>j<k'. \<not> cmd_success w (length (cmd_log w) + j)) \<longrightarrow>
           cmd_log (snd (execute_heal_service fmt d w))
             = cmd_log w @ replicate (Suc k') (restart_command (target d))
         \<and> slept (snd (execute_heal_service fmt d w)) = slept w + 6 * k' + 1
         \<and> map_of (details r) ''attempts'' = Some (PInt (int k' + 1))"
    using uniq w' r(3) by blast
  with r(1,2) bound True show ?thesis by blast
qed

theorem heal_service_retries_witness:
  "dict_get (parameters bare_heal_decision) ''action'' (PStr ''restart'') = PStr ''restart''
   \<and> py_range (dict_get (parameters bare_heal_decision) ''max_attempts'' (PInt 3)) = Inr 3
   \<and> (\<exists>r. fst (execute_heal_service plain_text bare_heal_decision failing_world) = Inr r
          \<and> \<not> success r)
   \<and> cmd_log (snd (execute_heal_service plain_text bare_heal_decision failing_world))
      = [''systemctl restart api'', ''systemctl restart api'', ''systemctl restart api'']
   \<and> slept (snd (execute_heal_service plain_text bare_heal_decision failing_world)) = 18"
proof -
  have h1: "dict_get (parameters bare_heal_decision) ''action'' (PStr ''restart'')
            = PStr ''restart''"
    by (simp add: bare_heal_decision_def dict_get_def)
  have h2: "py_range (dict_get (parameters bare_heal_decision) ''max_attempts'' (PInt 3)) = Inr 3"
    by (simp add: bare_heal_decision_def dict_get_def)
  have fails: "\<forall>k<3. \<not> cmd_success failing_world (length (cmd_log failing_world) + k)"
    by (simp add: failing_world_def)
  have start: "cmd_log failing_world = []" "slept failing_world = 0"
    "target bare_heal_decision = ''api''"
    by (simp_all add: failing_world_def example_world_def bare_heal_decision_def heal_decision_def)
  have three: "replicate 3 (restart_command ''api'')
      = [''systemctl restart api'', ''systemctl restart api'', ''systemctl restart api'']"
    by (simp add: restart_command_def numeral_3_eq_3)
  from heal_service_retries [OF h1 h2, of plain_text failing_world] fails
  have "\<exists>r. fst (execute_heal_service plain_text bare_heal_decision failing_world) = Inr r
          \<and> \<not> success r"
    and "cmd_log (snd (execute_heal_service plain_text bare_heal_decision failing_world))
           = cmd_log failing_world @ replicate 3 (restart_command (target bare_heal_decision))"
    and "slept (snd (execute_heal_service plain_text bare_heal_decision failing_world))
           = slept failing_world + 6 * 3"
    by blast+
  then show ?thesis using h1 h2 by (simp add: start three)
qed

lemma now_fields:
  "cmd_log (snd (now w)) = cmd_log w" "slept (snd (now w)) = slept w"
  by (simp_all add: now_def)

lemma dispatch_unknown:
  "action_type d = DEPLOY_UPDATE \<or> action_type d = CREATE_ALERT \<Longrightarrow>
   dispatch fmt ex d w
   = never_raises (make_result False
       (''Unknown action type: ActionType.'' @ action_type_name (action_type d)) [] w)"
  by (auto simp: dispatch_def)

lemma execute_action_result:
  "fst (execute_action fmt ex d w)
   = Inr (case fst (dispatch fmt ex d (snd (now w))) of
            Inr result \<Rightarrow>
              result\<lparr>execution_time :=
                seconds (fst (now (snd (dispatch fmt ex d (snd (now w))))) - fst (now w))\<rparr>
          | Inl e \<Rightarrow>
              \<lparr>success = False, result_message = ''Action execution failed: '' @ exn_text e,
               details = [(''error'', PStr (exn_text e)),
                          (''action_type'', PStr (action_type_value (action_type d)))],
               execution_time =
                 seconds (fst (now (snd (dispatch fmt ex d (snd (now w))))) - fst (now w)),
               result_timestamp =
                 fst (now (snd (now (snd (dispatch fmt ex d (snd (now w)))))))\<rparr>)"
  by (simp add: execute_action_def Let_def split_def split: sum.splits)

lemma execute_action_history:
  "fst (execute_action fmt ex d w) = Inr r \<Longrightarrow>
   fst (snd (execute_action fmt ex d w)) = ex\<lparr>execution_history := execution_history ex @ [r]\<rparr>"
  by (auto simp: execute_action_def Let_def split_def split: sum.splits)

lemma execute_action_world:
  "cmd_log (snd (snd (execute_action fmt ex d w))) = cmd_log (snd (dispatch fmt ex d (snd (now w))))"
  "slept (snd (snd (execute_action fmt ex d w))) = slept (snd (dispatch fmt ex d (snd (now w))))"
  by (simp_all add: execute_action_def Let_def split_def now_def split: sum.splits)

text \<open>
  C3 (as amended). For every decision \<^verbatim>\<open>execute_action\<close> returns a result and raises
  nothing; the result is appended to the execution history. An exception raised by the
  handler gives a result with \<^verbatim>\<open>success = False\<close>, and a result returned by the handler
  keeps its success flag. For an action type without a handler (\<^verbatim>\<open>deploy_update\<close>,
  \<^verbatim>\<open>create_alert\<close>) the result is a failure, no command is run and no time is slept:
  the append to the history is the only change.
\<close>

theorem execute_action_never_raises:
  "\<exists>r. fst (execute_action fmt ex d w) = Inr r
     \<and> fst (snd (execute_action fmt ex d w))
         = ex\<lparr>execution_history := execution_history ex @ [r]\<rparr>
     \<and> (\<forall>e. fst (dispatch fmt ex d (snd (now w))) = Inl e \<longrightarrow>
           \<not> success r \<and> result_message r = ''Action execution failed: '' @ exn_text e)
     \<and> (\<forall>r0. fst (dispatch fmt ex d (snd (now w))) = Inr r0 \<longrightarrow> success r = success r0)
     \<and> (action_type d = DEPLOY_UPDATE \<or> action_type d = CREATE_ALERT \<longrightarrow>
           \<not> success r
         \<and> cmd_log (snd (snd (execute_action fmt ex d w))) = cmd_log w
         \<and> slept (snd (snd (execute_action fmt ex d w))) = slept w)"
proof -
  obtain r where r: "fst (execute_action fmt ex d w) = Inr r"
    using execute_action_result by blast
  have hist: "fst (snd (execute_action fmt ex d w))
         = ex\<lparr>execution_history := execution_history ex @ [r]\<rparr>"
    using r by (rule execute_action_history)
  have raised: "\<not> success r \<and> result_message r = ''Action execution failed: '' @ exn_text e"
    if "fst (dispatch fmt ex d (snd (now w))) = Inl e" for e
    using r that by (auto simp: execute_action_result)
  have returned: "success r = success r0"
    if "fst (dispatch fmt ex d (snd (now w))) = Inr r0" for r0
    using r that by (auto simp: execute_action_result)
  have unknown: "\<not> success r
         \<and> cmd_log (snd (snd (execute_action fmt ex d w))) = cmd_log w
         \<and> slept (snd (snd (execute_action fmt ex d w))) = slept w"
    if "action_type d = DEPLOY_UPDATE \<or> action_type d = CREATE_ALERT"
  proof -
    note disp = dispatch_unknown [OF that, of fmt ex "snd (now w)"]
    have "\<not> success r"
      using r by (auto simp: execute_action_result disp never_raises_def make_result_eq)
    moreover have "cmd_log (snd (snd (execute_action fmt ex d w))) = cmd_log w"
      "slept (snd (snd (execute_action fmt ex d w))) = slept w"
      by (simp_all add: execute_action_world disp never_raises_def make_result_eq now_fields)
    ultimately show ?thesis by blast
  qed
  from r hist raised returned unknown show ?thesis by blast
qed

lemmas executor_defs = execute_action_def dispatch_def never_raises_def make_result_def
  execute_optimize_performance_def execute_heal_service_def run_command_def sleep_def
  init_executor_def with_now_def now_def Let_def dict_get_def seconds_def

theorem execute_action_never_raises_witness:
  "fst (dispatch plain_text (init_executor []) bad_cleanup_decision (snd (now example_world)))
     = Inl (TypeError ''object is not subscriptable'')
   \<and> (\<exists>r. fst (execute_action plain_text (init_executor []) bad_cleanup_decision example_world)
            = Inr r
          \<and> \<not> success r
          \<and> result_message r = ''Action execution failed: object is not subscriptable'')
   \<and> action_type alert_decision = CREATE_ALERT
   \<and> (\<exists>r. fst (execute_action plain_text (init_executor []) alert_decision example_world) = Inr r
          \<and> \<not> success r)
   \<and> cmd_log (snd (snd (execute_action plain_text (init_executor []) alert_decision
                           example_world))) = []"
proof -
  have h1: "fst (dispatch plain_text (init_executor []) bad_cleanup_decision
                  (snd (now example_world)))
     = Inl (TypeError ''object is not subscriptable'')"
    by (simp add: executor_defs bad_cleanup_decision_def)
  have h2: "action_type alert_decision = CREATE_ALERT"
    by (simp add: alert_decision_def)
  have h3: "cmd_log example_world = []"
    by (simp add: example_world_def)
  from execute_action_never_raises
         [of plain_text "init_executor []" bad_cleanup_decision example_world] h1
  have a: "\<exists>r. fst (execute_action plain_text (init_executor []) bad_cleanup_decision
                     example_world) = Inr r
          \<and> \<not> success r
          \<and> result_message r = ''Action execution failed: object is not subscriptable''"
    by auto
  from execute_action_never_raises
         [of plain_text "init_executor []" alert_decision example_world] h2 h3
  have b: "(\<exists>r. fst (execute_action plain_text (init_executor []) alert_decision example_world)
               = Inr r \<and> \<not> success r)
     \<and> cmd_log (snd (snd (execute_action plain_text (init_executor []) alert_decision
                           example_world))) = []"
    by auto
  from h1 a h2 b show ?thesis by blast
qed

text \<open>
  A decision with an action type that has no handler still changes the executor: its
  failure result is appended to the execution history.
\<close>

theorem unknown_action_counterexample:
  "action_type alert_decision = CREATE_ALERT
   \<and> fst (snd (execute_action plain_text (init_executor []) alert_decision example_world))
       \<noteq> init_executor []
   \<and> length (execution_history (fst (snd (execute_action plain_text (init_executor [])
                alert_decision example_world)))) = 1"
proof -
  obtain r where "fst (execute_action plain_text (init_executor []) alert_decision example_world)
                  = Inr r"
    using execute_action_result by blast
  then have "fst (snd (execute_action plain_text (init_executor []) alert_decision example_world))
       = (init_executor [])\<lparr>execution_history := execution_history (init_executor []) @ [r]\<rparr>"
    by (rule execute_action_history)
  then show ?thesis
    by (simp add: init_executor_def alert_decision_def)
qed













end
